theory Spec2Isabelle
  imports Main
begin

section \<open>Python values\<close>

text \<open>
  The exceptions that \<^verbatim>\<open>cellmaps_pipeline/runner.py\<close> can raise by itself:
  \<^verbatim>\<open>CellmapsPipelineError\<close> with its message, the \<^verbatim>\<open>IndexError\<close> of a list index out
  of range, the \<^verbatim>\<open>TypeError\<close> of \<^verbatim>\<open>int + str\<close> and of \<^verbatim>\<open>os.path.abspath(None)\<close>, and
  the \<^verbatim>\<open>FileExistsError\<close> of \<^verbatim>\<open>os.makedirs\<close> on a path that is a regular file.
  A function that can raise returns \<open>error + 'a\<close>, \<open>Inl\<close> being the exception.
\<close>

datatype error = CellmapsPipelineError string | IndexError | TypeError | FileExistsError

text \<open>What a runner's \<^verbatim>\<open>run()\<close> hands back: an integer, or \<^verbatim>\<open>None\<close> when the method
  ends without a \<^verbatim>\<open>return\<close>.\<close>

datatype pyval = PyNone | PyInt int

text \<open>\<^verbatim>\<open>str(n)\<close> for an integer: decimal digits, with a minus sign when negative.\<close>

definition digit_char :: "nat \<Rightarrow> char" where
  "digit_char n = ''0123456789'' ! n"

definition is_digit :: "char \<Rightarrow> bool" where
  "is_digit c = (c \<in> set ''0123456789'')"

fun str_nat :: "nat \<Rightarrow> string" where
  "str_nat n = (if n < 10 then [digit_char n] else str_nat (n div 10) @ [digit_char (n mod 10)])"

declare str_nat.simps [simp del]

definition str_int :: "int \<Rightarrow> string" where
  "str_int i = (if i < 0 then CHR ''-'' # str_nat (nat (- i)) else str_nat (nat i))"

text \<open>
  \<^verbatim>\<open>repr(s)\<close> for a string, which \<^verbatim>\<open>str\<close> of a tuple applies to its string components:
  single quotes unless the string holds a single quote and no double quote; the quote in
  use and the backslash are escaped, tab, newline and carriage return are written
  \<^verbatim>\<open>\t \n \r\<close>, every other non-printable code point below 256 as \<^verbatim>\<open>\xhh\<close>.
  A \<open>char\<close> is read as the code point of the same number.
\<close>

definition hex_digit :: "nat \<Rightarrow> char" where
  "hex_digit n = ''0123456789abcdef'' ! n"

definition repr_char :: "char \<Rightarrow> char \<Rightarrow> string" where
  "repr_char q c =
     (let n = (of_char c :: nat) in
      if c = q \<or> c = CHR 0x5C then [CHR 0x5C, c]
      else if c = CHR 0x09 then [CHR 0x5C, CHR ''t'']
      else if c = CHR 0x0A then [CHR 0x5C, CHR ''n'']
      else if c = CHR 0x0D then [CHR 0x5C, CHR ''r'']
      else if n < 32 \<or> (127 \<le> n \<and> n \<le> 160) \<or> n = 173
        then [CHR 0x5C, CHR ''x'', hex_digit (n div 16), hex_digit (n mod 16)]
      else [c])"

definition repr_str :: "string \<Rightarrow> string" where
  "repr_str s =
     (let q = (if CHR 0x27 \<in> set s \<and> CHR 0x22 \<notin> set s then CHR 0x22 else CHR 0x27)
      in [q] @ concat (map (repr_char q) s) @ [q])"

text \<open>\<^verbatim>\<open>str(t)\<close> for a tuple \<^verbatim>\<open>(int, str, str)\<close>.\<close>

definition str_tuple :: "int \<times> string \<times> string \<Rightarrow> string" where
  "str_tuple t =
     ''('' @ str_int (fst t) @ '', '' @ repr_str (fst (snd t)) @ '', '' @
     repr_str (snd (snd t)) @ '')''"

text \<open>\<^verbatim>\<open>sep.join(xs)\<close>.\<close>

fun str_join :: "string \<Rightarrow> string list \<Rightarrow> string" where
  "str_join sep [] = []"
| "str_join sep [x] = x"
| "str_join sep (x # y # ys) = x @ sep @ str_join sep (y # ys)"

text \<open>\<^verbatim>\<open>xs[i]\<close>: a negative index counts from the end, an index out of range raises.\<close>

definition py_index :: "'a list \<Rightarrow> int \<Rightarrow> error + 'a" where
  "py_index xs i =
     (let n = int (length xs); j = (if i < 0 then i + n else i)
      in if 0 \<le> j \<and> j < n then Inr (xs ! nat j) else Inl IndexError)"

section \<open>Paths and the constants of \<^verbatim>\<open>cellmaps_utils\<close>\<close>

text \<open>\<^verbatim>\<open>os.path.join(a, b)\<close> of \<^verbatim>\<open>posixpath\<close>, for two components.\<close>

definition starts_with_sep :: "string \<Rightarrow> bool" where
  "starts_with_sep b = (b \<noteq> [] \<and> hd b = CHR ''/'')"

definition os_path_join :: "string \<Rightarrow> string \<Rightarrow> string" where
  "os_path_join a b =
     (if starts_with_sep b then b
      else if a = [] \<or> last a = CHR ''/'' then a @ b
      else a @ ''/'' @ b)"

text \<open>
  The step directory names are constants of the package \<^verbatim>\<open>cellmaps_utils\<close>, which is
  not part of this repository; they are a parameter of the model.
\<close>

record constants =
  IMAGE_DOWNLOAD_STEP_DIR :: string
  PPI_DOWNLOAD_STEP_DIR :: string
  IMAGE_EMBEDDING_STEP_DIR :: string
  PPI_EMBEDDING_STEP_DIR :: string
  COEMBEDDING_STEP_DIR :: string
  HIERARCHY_STEP_DIR :: string

section \<open>The world the runners act on\<close>

text \<open>
  The stage implementations are external packages. A worker is named by its class and
  the directories the runner passes to its constructor (output directory first); the
  generator or downloader the \<^verbatim>\<open>fake\<close> flag selects is part of the name. The other
  constructor arguments (input files, provenance, model path, cutoffs) are forwarded
  unchanged and do not enter the runner's control flow. Reading the input tables and
  building the generator, which the source does just before it constructs a worker, count
  as part of the worker's invocation; a worker is taken to return an exit code.
\<close>

datatype generator =
    FakeImageDownloader
  | MultiProcessImageDownloader
  | FakeEmbeddingGenerator string
  | DensenetEmbeddingGenerator string string int
  | FakeCoEmbeddingGenerator string string
  | MuseCoEmbeddingGenerator string string string

datatype worker =
    CellmapsImageDownloader string generator
  | CellmapsPPIDownloader string
  | CellMapsPPIEmbedder string string
  | CellmapsImageEmbedder string string generator
  | CellmapsCoEmbedder string "string list" generator
  | CellmapsGenerateHierarchy string "string list"

text \<open>
  \<open>dirs\<close>: the directories that exist. \<open>files\<close>: the regular files that exist,
  with their content; \<open>opened\<close>: the paths opened through \<^verbatim>\<open>open(path, 'w')\<close>, in order.
  \<open>calls\<close>: every worker whose \<^verbatim>\<open>run()\<close> was invoked, with the code it returned, in
  order. \<open>warns\<close> and \<open>logged\<close>: the messages of \<^verbatim>\<open>warnings.warn\<close> and
  \<^verbatim>\<open>logger.error\<close>. \<open>start_json\<close> and \<open>finish_json\<close>: the calls of
  \<^verbatim>\<open>logutils.write_task_start_json\<close> and \<^verbatim>\<open>logutils.write_task_finish_json\<close>.
\<close>

record world =
  dirs :: "string set"
  files :: "string \<Rightarrow> string option"
  opened :: "string list"
  calls :: "(worker \<times> int) list"
  warns :: "string list"
  logged :: "string list"
  start_json :: "(string \<times> int \<times> (string \<times> string) list option \<times> string) list"
  finish_json :: "(string \<times> int \<times> pyval) list"

definition isdir :: "string \<Rightarrow> world \<Rightarrow> bool" where
  "isdir p w = (p \<in> dirs w)"

text \<open>
  \<^verbatim>\<open>os.makedirs(p)\<close>, which its caller reaches only when \<open>p\<close> is no directory: it
  raises \<^verbatim>\<open>FileExistsError\<close> when \<open>p\<close> exists as a regular file, and makes \<open>p\<close> a
  directory otherwise.
\<close>

definition makedirs :: "string \<Rightarrow> world \<Rightarrow> error + world" where
  "makedirs p w =
     (if files w p \<noteq> None then Inl FileExistsError
      else Inr (w\<lparr>dirs := insert p (dirs w)\<rparr>))"

definition warn :: "string \<Rightarrow> world \<Rightarrow> world" where
  "warn msg w = w\<lparr>warns := warns w @ [msg]\<rparr>"

definition log_error :: "string \<Rightarrow> world \<Rightarrow> world" where
  "log_error msg w = w\<lparr>logged := logged w @ [msg]\<rparr>"

text \<open>
  \<^verbatim>\<open>open(p, 'w')\<close> and \<^verbatim>\<open>f.write(s)\<close> for a path whose directory exists. The runner
  opens files in its output root only, which \<^verbatim>\<open>CellmapsPipeline.run\<close> creates before it
  calls the runner; a runner called on a missing output root (where \<^verbatim>\<open>open\<close> raises
  \<^verbatim>\<open>FileNotFoundError\<close>) is outside the model, and the statements about written
  scripts are made for worlds in which the output root exists.
\<close>

definition open_w :: "string \<Rightarrow> world \<Rightarrow> world" where
  "open_w p w = w\<lparr>files := (files w)(p \<mapsto> []), opened := opened w @ [p]\<rparr>"

definition fwrite :: "string \<Rightarrow> string \<Rightarrow> world \<Rightarrow> world" where
  "fwrite p s w =
     w\<lparr>files := (files w)(p \<mapsto> (case files w p of None \<Rightarrow> s | Some c \<Rightarrow> c @ s))\<rparr>"

definition write_task_start_json ::
    "string \<Rightarrow> int \<Rightarrow> (string \<times> string) list option \<Rightarrow> string \<Rightarrow> world \<Rightarrow> world" where
  "write_task_start_json d t dat version w =
     w\<lparr>start_json := start_json w @ [(d, t, dat, version)]\<rparr>"

definition write_task_finish_json :: "string \<Rightarrow> int \<Rightarrow> pyval \<Rightarrow> world \<Rightarrow> world" where
  "write_task_finish_json d t status w =
     w\<lparr>finish_json := finish_json w @ [(d, t, status)]\<rparr>"

text \<open>
  The behaviour of the external workers is a parameter: \<open>ext k ds\<close> is the exit code of
  worker \<open>k\<close> run when the directories \<open>ds\<close> exist, and the directories that exist
  afterwards. \<open>invoke\<close> is the construction of a worker followed by its \<^verbatim>\<open>run()\<close>.
\<close>

type_synonym stages = "worker \<Rightarrow> string set \<Rightarrow> int \<times> string set"

definition invoke :: "stages \<Rightarrow> worker \<Rightarrow> world \<Rightarrow> int \<times> world" where
  "invoke ext k w =
     (case ext k (dirs w) of (c, ds) \<Rightarrow> (c, w\<lparr>dirs := ds, calls := calls w @ [(k, c)]\<rparr>))"

section \<open>\<^verbatim>\<open>PipelineRunner\<close>\<close>

text \<open>
  \<^verbatim>\<open>os.path.abspath\<close> depends on the working directory of the process and is a parameter
  (\<open>abspath\<close>); on \<^verbatim>\<open>None\<close> it raises \<^verbatim>\<open>TypeError\<close>.
\<close>

record PipelineRunner =
  outdir :: string

definition PipelineRunner_init :: "(string \<Rightarrow> string) \<Rightarrow> string option \<Rightarrow> error + string" where
  "PipelineRunner_init abspath od =
     (case od of None \<Rightarrow> Inl TypeError | Some d \<Rightarrow> Inr (abspath d))"

definition get_image_coembed_tuples ::
    "constants \<Rightarrow> string \<Rightarrow> int list option \<Rightarrow> error + (int \<times> string \<times> string) list" where
  "get_image_coembed_tuples C od folds =
     (case folds of
        None \<Rightarrow> Inl (CellmapsPipelineError ''Fold cannot be None'')
      | Some fs \<Rightarrow>
          Inr (map (\<lambda>fold_val.
                 (fold_val,
                  os_path_join od (IMAGE_EMBEDDING_STEP_DIR C @ str_int fold_val),
                  os_path_join od (COEMBEDDING_STEP_DIR C @ str_int fold_val))) fs))"

section \<open>\<^verbatim>\<open>SLURMPipelineRunner\<close>\<close>

text \<open>
  The fields the methods read. The constructor also stores \<^verbatim>\<open>cm4ai_apms\<close>,
  \<^verbatim>\<open>edgelist\<close>, \<^verbatim>\<open>baitlist\<close>, \<^verbatim>\<open>model_path\<close>, \<^verbatim>\<open>proteinatlasxml\<close>,
  \<^verbatim>\<open>ppi_cutoffs\<close> and \<^verbatim>\<open>input_data_dict\<close>, which no method of the class reads.
\<close>

record SLURMPipelineRunner = PipelineRunner +
  s_cm4ai_image :: "string option"
  s_samples :: "string option"
  s_unique :: "string option"
  s_fake :: "bool option"
  s_provenance :: "string option"
  s_slurm_partition :: "string option"
  s_slurm_account :: "string option"
  s_image_dir :: string
  s_ppi_dir :: string
  s_ppi_embed_dir :: string
  s_image_coembed_tuples :: "(int \<times> string \<times> string) list"
  s_hierarchy_dir :: string

definition SLURMPipelineRunner_init ::
    "(string \<Rightarrow> string) \<Rightarrow> constants \<Rightarrow> string option \<Rightarrow> string option \<Rightarrow> string option \<Rightarrow>
     string option \<Rightarrow> bool option \<Rightarrow> string option \<Rightarrow> int list option \<Rightarrow> string option \<Rightarrow>
     string option \<Rightarrow> error + SLURMPipelineRunner" where
  "SLURMPipelineRunner_init abspath C od cm4ai_image samples unique fake provenance folds
       slurm_partition slurm_account =
     (case PipelineRunner_init abspath od of
        Inl e \<Rightarrow> Inl e
      | Inr d \<Rightarrow>
          (case get_image_coembed_tuples C d folds of
             Inl e \<Rightarrow> Inl e
           | Inr tuples \<Rightarrow>
               Inr \<lparr>outdir = d,
                    s_cm4ai_image = cm4ai_image,
                    s_samples = samples,
                    s_unique = unique,
                    s_fake = fake,
                    s_provenance = provenance,
                    s_slurm_partition = slurm_partition,
                    s_slurm_account = slurm_account,
                    s_image_dir = os_path_join d (IMAGE_DOWNLOAD_STEP_DIR C),
                    s_ppi_dir = os_path_join d (PPI_DOWNLOAD_STEP_DIR C),
                    s_ppi_embed_dir = os_path_join d (PPI_EMBEDDING_STEP_DIR C),
                    s_image_coembed_tuples = tuples,
                    s_hierarchy_dir = os_path_join d (HIERARCHY_STEP_DIR C)\<rparr>))"

definition write_slurm_directives ::
    "SLURMPipelineRunner \<Rightarrow> string \<Rightarrow> string \<Rightarrow> string \<Rightarrow> string \<Rightarrow> string \<Rightarrow> world \<Rightarrow> world" where
  "write_slurm_directives r out allocated_time mem cpus_per_task job_name w0 =
     (let w1 = fwrite out ''#!/bin/bash\<newline>\<newline>'' w0;
          w2 = fwrite out (''#SBATCH --job-name='' @ job_name @ ''\<newline>'') w1;
          w3 = fwrite out (''#SBATCH --chdir='' @ outdir r @ ''\<newline>'') w2;
          w4 = fwrite out ''#SBATCH --output=%x.%j.out'' w3;
          w5 = (case s_slurm_partition r of
                  None \<Rightarrow> w4
                | Some p \<Rightarrow> fwrite out (''#SBATCH --partition='' @ p @ ''\<newline>'') w4);
          w6 = (case s_slurm_account r of
                  None \<Rightarrow> w5
                | Some a \<Rightarrow> fwrite out (''#SBATCH --account='' @ a @ ''\<newline>'') w5);
          w7 = fwrite out ''#SBATCH --ntasks=1\<newline>'' w6;
          w8 = fwrite out (''#SBATCH --cpus-per-task='' @ cpus_per_task @ ''\<newline>'') w7;
          w9 = fwrite out (''#SBATCH --mem='' @ mem @ ''\<newline>'') w8;
          w10 = fwrite out (''#SBATCH --time='' @ allocated_time @ ''\<newline>\<newline>'') w9;
          w11 = fwrite out ''echo $SLURM_JOB_ID\<newline>'' w10
      in fwrite out ''echo $HOSTNAME\<newline>'' w11)"

text \<open>Every caller leaves the resource arguments at their defaults.\<close>

definition slurm_directives :: "SLURMPipelineRunner \<Rightarrow> string \<Rightarrow> string \<Rightarrow> world \<Rightarrow> world" where
  "slurm_directives r out job_name w =
     write_slurm_directives r out ''4:00:00'' ''32G'' ''4'' job_name w"

definition generate_download_images_command ::
    "SLURMPipelineRunner \<Rightarrow> world \<Rightarrow> (error + string) \<times> world" where
  "generate_download_images_command r w =
     (let f = os_path_join (outdir r) ''imagedownloadjob.sh'';
          w1 = slurm_directives r f ''imagedownload'' (open_w f w);
          input_arg =
            (case s_cm4ai_image r of
               Some t \<Rightarrow> Inr (''--cm4ai_table '' @ t)
             | None \<Rightarrow>
                 (case (s_samples r, s_unique r) of
                    (Some s, Some u) \<Rightarrow> Inr (''--samples '' @ s @ '' --unique '' @ u)
                  | _ \<Rightarrow> Inl (CellmapsPipelineError
                      ''You must provide cm4ai_table parameter or samples and unque parameters.'')))
      in case input_arg of
           Inl e \<Rightarrow> (Inl e, w1)
         | Inr arg \<Rightarrow>
             (case s_provenance r of
                None \<Rightarrow> (Inl (CellmapsPipelineError ''You must provide provenance parameter''), w1)
              | Some prov \<Rightarrow>
                  (Inr ''imagedownloadjob.sh'',
                   fwrite f ''exit $?\<newline>''
                     (fwrite f (''cellmaps_imagedownloadercmd.py '' @ s_image_dir r @
                                ''--provenance '' @ prov @ '' '' @ arg @ ''\<newline>'') w1))))"

definition generate_download_ppi_command ::
    "SLURMPipelineRunner \<Rightarrow> world \<Rightarrow> (error + string) \<times> world" where
  "generate_download_ppi_command r w =
     (let f = os_path_join (outdir r) ''ppidownloadjob.sh'';
          w1 = slurm_directives r f ''ppidownload'' (open_w f w);
          input_arg =
            (case s_cm4ai_image r of
               Some t \<Rightarrow> Inr (''--cm4ai_table '' @ t)
             | None \<Rightarrow>
                 (case (s_samples r, s_unique r) of
                    (Some s, Some u) \<Rightarrow> Inr (''--samples '' @ s @ '' --unique '' @ u)
                  | _ \<Rightarrow> Inl (CellmapsPipelineError
                      ''You must provide cm4ai_table parameter or samples and unque parameters.'')))
      in case input_arg of
           Inl e \<Rightarrow> (Inl e, w1)
         | Inr arg \<Rightarrow>
             (case s_provenance r of
                None \<Rightarrow> (Inl (CellmapsPipelineError ''You must provide provenance parameter''), w1)
              | Some prov \<Rightarrow>
                  (Inr ''ppidownloadjob.sh'',
                   fwrite f ''exit $?\<newline>''
                     (fwrite f (''cellmaps_ppidownloadercmd.py '' @ s_ppi_dir r @
                                '' --provenance '' @ prov @ '' '' @ arg @ ''\<newline>'') w1))))"

text \<open>
  The two per-fold generators index the tuple list at \<^verbatim>\<open>fold - 1\<close>; the index is
  evaluated after the file is opened and the directives are written.
\<close>

definition generate_embed_image_command ::
    "SLURMPipelineRunner \<Rightarrow> int \<Rightarrow> world \<Rightarrow> (error + string) \<times> world" where
  "generate_embed_image_command r fold_val w =
     (let filename = ''imageembedjob'' @ str_int fold_val @ ''.sh'';
          f = os_path_join (outdir r) filename;
          w1 = slurm_directives r f (''imageembed'' @ str_int fold_val) (open_w f w);
          fake = (if s_fake r = Some True then ''--fake_embedder'' else [])
      in case py_index (s_image_coembed_tuples r) (fold_val - 1) of
           Inl e \<Rightarrow> (Inl e, w1)
         | Inr t \<Rightarrow>
             (Inr filename,
              fwrite f ''exit $?\<newline>''
                (fwrite f (''cellmaps_image_embeddingcmd.py '' @ fst (snd t) @
                           '' --fold '' @ str_int fold_val @ '' --inputdir '' @ s_image_dir r @
                           '' '' @ fake @ '' -vvvv\<newline>'') w1)))"

definition generate_embed_ppi_command ::
    "SLURMPipelineRunner \<Rightarrow> world \<Rightarrow> (error + string) \<times> world" where
  "generate_embed_ppi_command r w =
     (let f = os_path_join (outdir r) ''ppiembedjob.sh'';
          w1 = slurm_directives r f ''ppiembed'' (open_w f w);
          fake = (if s_fake r = Some True then ''--fake_embedder'' else [])
      in (Inr ''ppiembedjob.sh'',
          fwrite f ''exit $?\<newline>''
            (fwrite f (''cellmaps_ppi_embeddingcmd.py '' @ s_ppi_embed_dir r @
                       '' --inputdir '' @ s_ppi_dir r @ '' '' @ fake @ '' -vvvv\<newline>'') w1)))"

definition generate_coembed_command ::
    "SLURMPipelineRunner \<Rightarrow> int \<Rightarrow> world \<Rightarrow> (error + string) \<times> world" where
  "generate_coembed_command r fold_val w =
     (let filename = ''coembeddingjob'' @ str_int fold_val @ ''.sh'';
          f = os_path_join (outdir r) filename;
          w1 = slurm_directives r f (''coembedding'' @ str_int fold_val) (open_w f w);
          fake = (if s_fake r = Some True then ''--fake_embedding'' else [])
      in case py_index (s_image_coembed_tuples r) (fold_val - 1) of
           Inl e \<Rightarrow> (Inl e, w1)
         | Inr t \<Rightarrow>
             (Inr filename,
              fwrite f ''exit $?\<newline>''
                (fwrite f (''cellmaps_coembeddingcmd.py '' @ snd (snd t) @
                           '' --ppi_embeddingdir '' @ s_ppi_embed_dir r @
                           '' --image_embeddingdir '' @ fst (snd t) @
                           '' '' @ fake @ '' -vvvv\<newline>'') w1)))"

definition generate_hierarchy_command ::
    "SLURMPipelineRunner \<Rightarrow> world \<Rightarrow> (error + string) \<times> world" where
  "generate_hierarchy_command r w =
     (let f = os_path_join (outdir r) ''hierarchyjob.sh'';
          w1 = slurm_directives r f ''hierarchy'' (open_w f w);
          w2 = fwrite f (''cellmaps_generate_hierarchycmd.py '' @ s_hierarchy_dir r @
                         '' --coembedding_dirs '') w1;
          w3 = foldl (\<lambda>w t. fwrite f (snd (snd t) @ '' '') w) w2 (s_image_coembed_tuples r)
      in (Inr ''hierarchyjob.sh'', fwrite f ''exit $?\<newline>'' (fwrite f ''-vvvv\<newline>'' w3)))"

text \<open>
  The loop of \<^verbatim>\<open>SLURMPipelineRunner.run\<close> over the fold tuples: \<open>f\<close> is the driver
  script, \<open>names\<close> the list \<^verbatim>\<open>embed_job_names\<close>. The name of a co-embedding job is
  built from \<^verbatim>\<open>str\<close> of the whole tuple, and its submission line is written without
  the closing parenthesis and newline, as in the source.
\<close>

fun slurm_fold_loop ::
    "SLURMPipelineRunner \<Rightarrow> string \<Rightarrow> (int \<times> string \<times> string) list \<Rightarrow> string list \<Rightarrow> world \<Rightarrow>
     (error + string list) \<times> world" where
  "slurm_fold_loop r f [] names w = (Inr names, w)"
| "slurm_fold_loop r f (t # ts) names w =
     (case generate_embed_image_command r (fst t) (fwrite f ''# image embed\<newline>'' w) of
        (Inl e, w2) \<Rightarrow> (Inl e, w2)
      | (Inr script, w2) \<Rightarrow>
          (let w3 = fwrite f (''image_embed_job'' @ str_int (fst t) @
                              ''=$(sbatch --dependency=afterok:$image_download_job '' @
                              script @ '')\<newline>\<newline>'') w2;
               w4 = fwrite f (''# fold'' @ str_int (fst t) @ '' co-embedding\<newline>'') w3;
               embed_job_name = ''f'' @ str_tuple t @ ''_coembed_job''
           in case generate_coembed_command r (fst t) w4 of
                (Inl e, w5) \<Rightarrow> (Inl e, w5)
              | (Inr script2, w5) \<Rightarrow>
                  slurm_fold_loop r f ts (names @ [''$'' @ embed_job_name])
                    (fwrite f (embed_job_name @
                               ''=$(sbatch --dependency=afterok:$image_embed_job'' @
                               str_int (fst t) @ '' '' @ script2) w5)))"

definition SLURMPipelineRunner_run :: "SLURMPipelineRunner \<Rightarrow> world \<Rightarrow> (error + pyval) \<times> world" where
  "SLURMPipelineRunner_run r w =
     (let f = os_path_join (outdir r) ''slurm_cellmaps_job.sh'';
          w1 = fwrite f ''# image download no dependencies\<newline>''
                 (fwrite f ''#! /bin/bash\<newline>\<newline>'' (open_w f w))
      in case generate_download_images_command r w1 of
           (Inl e, w2) \<Rightarrow> (Inl e, w2)
         | (Inr s1, w2) \<Rightarrow>
      (let w3 = fwrite f ''# ppi download no dependencies\<newline>''
                  (fwrite f (''image_download_job=$(sbatch '' @ s1 @ '')\<newline>\<newline>'') w2)
       in case generate_download_ppi_command r w3 of
            (Inl e, w4) \<Rightarrow> (Inl e, w4)
          | (Inr s2, w4) \<Rightarrow>
      (let w5 = fwrite f ''# ppi embed\<newline>''
                  (fwrite f (''ppi_download_job=$(sbatch '' @ s2 @ '')\<newline>\<newline>'') w4)
       in case generate_embed_ppi_command r w5 of
            (Inl e, w6) \<Rightarrow> (Inl e, w6)
          | (Inr s3, w6) \<Rightarrow>
      (let w7 = fwrite f (''ppi_embed_job=$(sbatch --dependency=afterok:$ppi_download_job '' @
                          s3 @ '')\<newline>\<newline>'') w6
       in case slurm_fold_loop r f (s_image_coembed_tuples r) [''$ppi_embed_job''] w7 of
            (Inl e, w8) \<Rightarrow> (Inl e, w8)
          | (Inr embed_job_names, w8) \<Rightarrow>
      (let dependency_str = str_join '':'' embed_job_names;
           w9 = fwrite f ''# hierarchy\<newline>'' w8
       in case generate_hierarchy_command r w9 of
            (Inl e, w10) \<Rightarrow> (Inl e, w10)
          | (Inr s4, w10) \<Rightarrow>
              (Inr PyNone,
               fwrite f (''hierarchy_job=$(sbatch --dependency=afterok:'' @ dependency_str @
                         '' '' @ s4 @ '')\<newline>\<newline>'') w10))))))"

section \<open>\<^verbatim>\<open>ProgrammaticPipelineRunner\<close>\<close>

text \<open>
  The fields that decide what the runner does. The other constructor arguments are only
  handed on to the workers.
\<close>

record ProgrammaticPipelineRunner = PipelineRunner +
  p_fake :: "bool option"
  p_image_dir :: string
  p_ppi_dir :: string
  p_ppi_embed_dir :: string
  p_image_coembed_tuples :: "(int \<times> string \<times> string) list"
  p_hierarchy_dir :: string

definition ProgrammaticPipelineRunner_init ::
    "(string \<Rightarrow> string) \<Rightarrow> constants \<Rightarrow> string option \<Rightarrow> bool option \<Rightarrow> int list option \<Rightarrow>
     error + ProgrammaticPipelineRunner" where
  "ProgrammaticPipelineRunner_init abspath C od fake folds =
     (case PipelineRunner_init abspath od of
        Inl e \<Rightarrow> Inl e
      | Inr d \<Rightarrow>
          (case get_image_coembed_tuples C d folds of
             Inl e \<Rightarrow> Inl e
           | Inr tuples \<Rightarrow>
               Inr \<lparr>outdir = d,
                    p_fake = fake,
                    p_image_dir = os_path_join d (IMAGE_DOWNLOAD_STEP_DIR C),
                    p_ppi_dir = os_path_join d (PPI_DOWNLOAD_STEP_DIR C),
                    p_ppi_embed_dir = os_path_join d (PPI_EMBEDDING_STEP_DIR C),
                    p_image_coembed_tuples = tuples,
                    p_hierarchy_dir = os_path_join d (HIERARCHY_STEP_DIR C)\<rparr>))"

definition download_images :: "stages \<Rightarrow> ProgrammaticPipelineRunner \<Rightarrow> world \<Rightarrow> int \<times> world" where
  "download_images ext r w =
     (if isdir (p_image_dir r) w
      then (0, warn ''Found image dir, assuming we are good. skipping'' w)
      else if p_fake r = Some True
        then invoke ext (CellmapsImageDownloader (p_image_dir r) FakeImageDownloader)
               (warn ''FAKE IMAGES ARE BEING DOWNLOADED!!!!!'' w)
        else invoke ext (CellmapsImageDownloader (p_image_dir r) MultiProcessImageDownloader) w)"

definition download_ppi :: "stages \<Rightarrow> ProgrammaticPipelineRunner \<Rightarrow> world \<Rightarrow> int \<times> world" where
  "download_ppi ext r w =
     (if isdir (p_ppi_dir r) w
      then (0, warn ''Found ppi dir, assuming we are good. skipping'' w)
      else invoke ext (CellmapsPPIDownloader (p_ppi_dir r)) w)"

definition embed_ppi :: "stages \<Rightarrow> ProgrammaticPipelineRunner \<Rightarrow> world \<Rightarrow> int \<times> world" where
  "embed_ppi ext r w =
     (if isdir (p_ppi_embed_dir r) w
      then (0, warn ''Found ppi embedding dir, assuming we are good. skipping'' w)
      else invoke ext (CellMapsPPIEmbedder (p_ppi_embed_dir r) (p_ppi_dir r)) w)"

text \<open>
  The loop of \<^verbatim>\<open>_embed_image\<close>. On a nonzero code the argument of \<^verbatim>\<open>logger.error\<close>
  is evaluated first; it adds the fold, an integer, to a string, which raises
  \<^verbatim>\<open>TypeError\<close> before the \<^verbatim>\<open>return retval\<close> is reached.
\<close>

fun embed_image_loop ::
    "stages \<Rightarrow> ProgrammaticPipelineRunner \<Rightarrow> (int \<times> string \<times> string) list \<Rightarrow> world \<Rightarrow>
     (error + int) \<times> world" where
  "embed_image_loop ext r [] w = (Inr 0, w)"
| "embed_image_loop ext r (t # ts) w =
     (if isdir (fst (snd t)) w
      then embed_image_loop ext r ts
             (warn (''Found image_embedding dir'' @ fst (snd t) @
                    '', assuming we are good. skipping'') w)
      else
        (let gen = (if p_fake r = Some True then FakeEmbeddingGenerator (p_image_dir r)
                    else DensenetEmbeddingGenerator (p_image_dir r) (fst (snd t)) (fst t))
         in case invoke ext (CellmapsImageEmbedder (fst (snd t)) (p_image_dir r) gen) w of
              (retval, w1) \<Rightarrow>
                if retval \<noteq> 0 then (Inl TypeError, w1)
                else embed_image_loop ext r ts w1))"

definition embed_image ::
    "stages \<Rightarrow> ProgrammaticPipelineRunner \<Rightarrow> world \<Rightarrow> (error + int) \<times> world" where
  "embed_image ext r w = embed_image_loop ext r (p_image_coembed_tuples r) w"

fun coembed_loop ::
    "stages \<Rightarrow> ProgrammaticPipelineRunner \<Rightarrow> (int \<times> string \<times> string) list \<Rightarrow> world \<Rightarrow>
     int \<times> world" where
  "coembed_loop ext r [] w = (0, w)"
| "coembed_loop ext r (t # ts) w =
     (if isdir (snd (snd t)) w
      then coembed_loop ext r ts
             (warn (''Found coembedding dir'' @ snd (snd t) @
                    '', assuming we are good. skipping'') w)
      else
        (let gen = (if p_fake r = Some True
                    then FakeCoEmbeddingGenerator (p_ppi_embed_dir r) (fst (snd t))
                    else MuseCoEmbeddingGenerator (snd (snd t)) (p_ppi_embed_dir r) (fst (snd t)))
         in case invoke ext
                   (CellmapsCoEmbedder (snd (snd t)) [fst (snd t), p_ppi_embed_dir r] gen) w of
              (retval, w1) \<Rightarrow>
                if retval \<noteq> 0
                then (retval,
                      log_error (''Coembedding '' @ snd (snd t) @ ''using '' @ fst (snd t) @
                                 '' had non zero exit code of: '' @ str_int retval) w1)
                else coembed_loop ext r ts w1))"

definition coembed :: "stages \<Rightarrow> ProgrammaticPipelineRunner \<Rightarrow> world \<Rightarrow> int \<times> world" where
  "coembed ext r w = coembed_loop ext r (p_image_coembed_tuples r) w"

definition hierarchy :: "stages \<Rightarrow> ProgrammaticPipelineRunner \<Rightarrow> world \<Rightarrow> int \<times> world" where
  "hierarchy ext r w =
     (if isdir (p_hierarchy_dir r) w
      then (0, warn ''Found hierarchy dir, assuming we are good. skipping'' w)
      else invoke ext
             (CellmapsGenerateHierarchy (p_hierarchy_dir r)
                (map (\<lambda>t. snd (snd t)) (p_image_coembed_tuples r))) w)"

definition ProgrammaticPipelineRunner_run ::
    "stages \<Rightarrow> ProgrammaticPipelineRunner \<Rightarrow> world \<Rightarrow> (error + pyval) \<times> world" where
  "ProgrammaticPipelineRunner_run ext r w =
     (case download_images ext r w of (c1, w1) \<Rightarrow>
      if c1 \<noteq> 0 then (Inl (CellmapsPipelineError ''Image download failed''), w1) else
     (case download_ppi ext r w1 of (c2, w2) \<Rightarrow>
      if c2 \<noteq> 0 then (Inl (CellmapsPipelineError ''PPI download failed''), w2) else
     (case embed_ppi ext r w2 of (c3, w3) \<Rightarrow>
      if c3 \<noteq> 0 then (Inl (CellmapsPipelineError ''PPI embed failed''), w3) else
     (case embed_image ext r w3 of
        (Inl e, w4) \<Rightarrow> (Inl e, w4)
      | (Inr c4, w4) \<Rightarrow>
      if c4 \<noteq> 0 then (Inl (CellmapsPipelineError ''Image embed failed''), w4) else
     (case coembed ext r w4 of (c5, w5) \<Rightarrow>
      if c5 \<noteq> 0 then (Inl (CellmapsPipelineError ''Coembed failed''), w5) else
     (case hierarchy ext r w5 of (c6, w6) \<Rightarrow>
      if c6 \<noteq> 0 then (Inl (CellmapsPipelineError ''Hierarchy failed''), w6)
      else (Inr (PyInt 0), w6)))))))"

section \<open>\<^verbatim>\<open>CellmapsPipeline\<close>\<close>

text \<open>
  \<open>runner\<close> is the bound method \<^verbatim>\<open>self._runner.run\<close>. \<open>now\<close> is \<^verbatim>\<open>int(time.time())\<close>
  at construction and \<open>version\<close> is \<^verbatim>\<open>cellmaps_pipeline.__version__\<close>, which is not
  in the source files.
\<close>

record CellmapsPipeline =
  pipeline_outdir :: "string option"
  start_time :: int
  runner :: "world \<Rightarrow> (error + pyval) \<times> world"
  input_data_dict :: "(string \<times> string) list option"

definition CellmapsPipeline_init ::
    "(string \<Rightarrow> string) \<Rightarrow> int \<Rightarrow> string option \<Rightarrow> (world \<Rightarrow> (error + pyval) \<times> world) \<Rightarrow>
     (string \<times> string) list option \<Rightarrow> error + CellmapsPipeline" where
  "CellmapsPipeline_init abspath now od rn idd =
     (case od of
        None \<Rightarrow> Inl (CellmapsPipelineError ''outdir is None'')
      | Some d \<Rightarrow>
          Inr \<lparr>pipeline_outdir = Some (abspath d), start_time = now, runner = rn,
               input_data_dict = idd\<rparr>)"

text \<open>
  \<^verbatim>\<open>CellmapsPipeline.run\<close>. The guard on the output root, \<^verbatim>\<open>os.makedirs\<close> and the
  start marker come before the \<^verbatim>\<open>try\<close>: an exception there ends the call with no
  finish marker. The \<^verbatim>\<open>try ... finally\<close> writes the finish marker on both branches:
  with the value \<^verbatim>\<open>exit_status\<close> was initialised to when the runner raised (the
  exception then propagates), with the runner's result otherwise. The two marker
  writers belong to \<^verbatim>\<open>cellmaps_utils\<close> and are taken not to raise.
\<close>

definition CellmapsPipeline_run ::
    "string \<Rightarrow> CellmapsPipeline \<Rightarrow> world \<Rightarrow> (error + pyval) \<times> world" where
  "CellmapsPipeline_run version p w =
     (case pipeline_outdir p of
        None \<Rightarrow> (Inl (CellmapsPipelineError ''outdir must be set''), w)
      | Some d \<Rightarrow>
          (case (if \<not> isdir d w then makedirs d w else Inr w) of
             Inl e \<Rightarrow> (Inl e, w)
           | Inr w1 \<Rightarrow>
               (let w2 = write_task_start_json d (start_time p) (input_data_dict p) version w1
                in case runner p w2 of
                     (Inl e, w3) \<Rightarrow>
                       (Inl e, write_task_finish_json d (start_time p) (PyInt 99) w3)
                   | (Inr exit_status, w3) \<Rightarrow>
                       (Inr exit_status,
                        write_task_finish_json d (start_time p) exit_status w3))))"

text \<open>Construction followed by \<^verbatim>\<open>run()\<close>, as a caller of the class does it.\<close>

definition CellmapsPipeline_new_run ::
    "(string \<Rightarrow> string) \<Rightarrow> int \<Rightarrow> string \<Rightarrow> string option \<Rightarrow>
     (world \<Rightarrow> (error + pyval) \<times> world) \<Rightarrow> (string \<times> string) list option \<Rightarrow> world \<Rightarrow>
     (error + pyval) \<times> world" where
  "CellmapsPipeline_new_run abspath now version od rn idd w =
     (case CellmapsPipeline_init abspath now od rn idd of
        Inl e \<Rightarrow> (Inl e, w)
      | Inr p \<Rightarrow> CellmapsPipeline_run version p w)"

section \<open>Notions used in the statements\<close>

text \<open>
  What the proofs need of the step directory names: they are pairwise distinct, none is
  empty or starts with a slash, and none ends in a digit (a fold number is appended to
  two of them).
\<close>

definition valid_step_dirs :: "constants \<Rightarrow> bool" where
  "valid_step_dirs C =
     (let names = [IMAGE_DOWNLOAD_STEP_DIR C, PPI_DOWNLOAD_STEP_DIR C, PPI_EMBEDDING_STEP_DIR C,
                   HIERARCHY_STEP_DIR C, IMAGE_EMBEDDING_STEP_DIR C, COEMBEDDING_STEP_DIR C]
      in distinct names \<and>
         list_all (\<lambda>n. n \<noteq> [] \<and> hd n \<noteq> CHR ''/'' \<and> \<not> is_digit (last n)) names)"

text \<open>
  Step directory names for the concrete inputs of the examples. The values the package
  gives its constants are not in the source files; no theorem depends on them beyond
  \<open>valid_step_dirs\<close>.
\<close>

definition example_constants :: constants where
  "example_constants =
     \<lparr>IMAGE_DOWNLOAD_STEP_DIR = ''1.image_download'',
      PPI_DOWNLOAD_STEP_DIR = ''1.ppi_download'',
      IMAGE_EMBEDDING_STEP_DIR = ''2.image_embedding_fold'',
      PPI_EMBEDDING_STEP_DIR = ''2.ppi_embedding'',
      COEMBEDDING_STEP_DIR = ''3.coembedding_fold'',
      HIERARCHY_STEP_DIR = ''4.hierarchy''\<rparr>"

text \<open>The output paths of all stage instances of a runner, and the names they are joined
  from.\<close>

definition stage_paths :: "SLURMPipelineRunner \<Rightarrow> string list" where
  "stage_paths r =
     [s_image_dir r, s_ppi_dir r, s_ppi_embed_dir r, s_hierarchy_dir r] @
     map (\<lambda>t. fst (snd t)) (s_image_coembed_tuples r) @
     map (\<lambda>t. snd (snd t)) (s_image_coembed_tuples r)"

definition step_names :: "constants \<Rightarrow> int list \<Rightarrow> string list" where
  "step_names C fs =
     [IMAGE_DOWNLOAD_STEP_DIR C, PPI_DOWNLOAD_STEP_DIR C, PPI_EMBEDDING_STEP_DIR C,
      HIERARCHY_STEP_DIR C] @
     map (\<lambda>f. IMAGE_EMBEDDING_STEP_DIR C @ str_int f) fs @
     map (\<lambda>f. COEMBEDDING_STEP_DIR C @ str_int f) fs"

text \<open>Every invocation in a list returned 0.\<close>

definition zero_codes :: "(worker \<times> int) list \<Rightarrow> bool" where
  "zero_codes cs = list_all (\<lambda>kc. snd kc = 0) cs"

text \<open>The name \<^verbatim>\<open>ProgrammaticPipelineRunner.run\<close> gives a stage in its error message.\<close>

definition stage_label :: "worker \<Rightarrow> string" where
  "stage_label k =
     (case k of
        CellmapsImageDownloader _ _ \<Rightarrow> ''Image download''
      | CellmapsPPIDownloader _ \<Rightarrow> ''PPI download''
      | CellMapsPPIEmbedder _ _ \<Rightarrow> ''PPI embed''
      | CellmapsImageEmbedder _ _ _ \<Rightarrow> ''Image embed''
      | CellmapsCoEmbedder _ _ _ \<Rightarrow> ''Coembed''
      | CellmapsGenerateHierarchy _ _ \<Rightarrow> ''Hierarchy'')"

definition is_image_embedder :: "worker \<Rightarrow> bool" where
  "is_image_embedder k = (case k of CellmapsImageEmbedder _ _ _ \<Rightarrow> True | _ \<Rightarrow> False)"

text \<open>
  What \<^verbatim>\<open>run()\<close> raises when worker \<open>k\<close> returns a nonzero code, and the shape of the
  invocations between two worlds: either all returned 0, or all but the last did and the
  last is the one the error \<open>e\<close> belongs to.
\<close>

definition failure_of :: "worker \<Rightarrow> error" where
  "failure_of k =
     (if is_image_embedder k then TypeError
      else CellmapsPipelineError (stage_label k @ '' failed''))"

definition trace_ok :: "error option \<Rightarrow> world \<Rightarrow> world \<Rightarrow> bool" where
  "trace_ok res w w' =
     (finish_json w' = finish_json w \<and>
      (\<exists>cs. calls w' = calls w @ cs \<and>
         (case res of
            None \<Rightarrow> zero_codes cs
          | Some e \<Rightarrow> \<exists>pre k c. cs = pre @ [(k, c)] \<and> zero_codes pre \<and> c \<noteq> 0 \<and>
                               e = failure_of k)))"

text \<open>Every output directory of the runner exists; the warnings a run then emits.\<close>

definition populated :: "ProgrammaticPipelineRunner \<Rightarrow> world \<Rightarrow> bool" where
  "populated r w =
     (isdir (p_image_dir r) w \<and> isdir (p_ppi_dir r) w \<and> isdir (p_ppi_embed_dir r) w \<and>
      list_all (\<lambda>t. isdir (fst (snd t)) w \<and> isdir (snd (snd t)) w) (p_image_coembed_tuples r) \<and>
      isdir (p_hierarchy_dir r) w)"

definition image_embed_notice :: "int \<times> string \<times> string \<Rightarrow> string" where
  "image_embed_notice t =
     ''Found image_embedding dir'' @ fst (snd t) @ '', assuming we are good. skipping''"

definition coembed_notice :: "int \<times> string \<times> string \<Rightarrow> string" where
  "coembed_notice t =
     ''Found coembedding dir'' @ snd (snd t) @ '', assuming we are good. skipping''"

definition skip_notices :: "ProgrammaticPipelineRunner \<Rightarrow> string list" where
  "skip_notices r =
     [''Found image dir, assuming we are good. skipping'',
      ''Found ppi dir, assuming we are good. skipping'',
      ''Found ppi embedding dir, assuming we are good. skipping''] @
     map image_embed_notice (p_image_coembed_tuples r) @
     map coembed_notice (p_image_coembed_tuples r) @
     [''Found hierarchy dir, assuming we are good. skipping'']"

text \<open>
  Concrete inputs for the examples: a world with nothing in it, one in which the output
  root \<^verbatim>\<open>/out\<close> exists, one in which \<^verbatim>\<open>/out\<close> is a regular file, runners as the
  constructors return them, and workers.
\<close>

definition empty_world :: world where
  "empty_world =
     \<lparr>dirs = {}, files = (\<lambda>p. None), opened = [], calls = [], warns = [], logged = [],
      start_json = [], finish_json = []\<rparr>"

definition out_world :: world where
  "out_world = empty_world\<lparr>dirs := {''/out''}\<rparr>"

definition blocked_world :: world where
  "blocked_world = empty_world\<lparr>files := (\<lambda>p. None)(''/out'' \<mapsto> ''not a directory'')\<rparr>"

definition example_programmatic :: "int list \<Rightarrow> ProgrammaticPipelineRunner" where
  "example_programmatic fs =
     \<lparr>outdir = ''/out'', p_fake = None,
      p_image_dir = ''/out/1.image_download'',
      p_ppi_dir = ''/out/1.ppi_download'',
      p_ppi_embed_dir = ''/out/2.ppi_embedding'',
      p_image_coembed_tuples =
        map (\<lambda>f. (f, ''/out/2.image_embedding_fold'' @ str_int f, ''/out/3.coembedding_fold'' @ str_int f)) fs,
      p_hierarchy_dir = ''/out/4.hierarchy''\<rparr>"

definition coembed_fails :: "string \<Rightarrow> int \<Rightarrow> stages" where
  "coembed_fails d c k ds =
     ((case k of CellmapsCoEmbedder od _ _ \<Rightarrow> if od = d then c else 0 | _ \<Rightarrow> 0), ds)"

definition all_return :: "int \<Rightarrow> stages" where
  "all_return c k ds = (c, ds)"

definition populated_world :: world where
  "populated_world =
     empty_world\<lparr>dirs := {''/out'', ''/out/1.image_download'', ''/out/1.ppi_download'',
       ''/out/2.ppi_embedding'', ''/out/2.image_embedding_fold1'', ''/out/3.coembedding_fold1'',
       ''/out/2.image_embedding_fold2'', ''/out/3.coembedding_fold2'', ''/out/4.hierarchy''}\<rparr>"

text \<open>
  Notions for the batch-scheduler runner. \<open>put_file f c\<close>: the file \<open>f\<close> was opened for
  writing and now holds \<open>c\<close>. \<open>directives_text\<close>: what \<^verbatim>\<open>_write_slurm_directives\<close>
  writes with the default resources. \<open>input_arg_text\<close> and \<open>fake_flag\<close>: the
  \<^verbatim>\<open>input_arg\<close> and \<^verbatim>\<open>fake\<close> strings of the generators. \<open>inputs_given\<close>: the two
  download generators raise no configuration error.
\<close>

definition put_file :: "string \<Rightarrow> string \<Rightarrow> world \<Rightarrow> world" where
  "put_file f c w = w\<lparr>files := (files w)(f \<mapsto> c), opened := opened w @ [f]\<rparr>"

definition directives_text :: "SLURMPipelineRunner \<Rightarrow> string \<Rightarrow> string" where
  "directives_text r job_name =
     ''#!/bin/bash\<newline>\<newline>'' @
     ''#SBATCH --job-name='' @ job_name @ ''\<newline>'' @
     ''#SBATCH --chdir='' @ outdir r @ ''\<newline>'' @
     ''#SBATCH --output=%x.%j.out'' @
     (case s_slurm_partition r of None \<Rightarrow> [] | Some p \<Rightarrow> ''#SBATCH --partition='' @ p @ ''\<newline>'') @
     (case s_slurm_account r of None \<Rightarrow> [] | Some a \<Rightarrow> ''#SBATCH --account='' @ a @ ''\<newline>'') @
     ''#SBATCH --ntasks=1\<newline>'' @
     ''#SBATCH --cpus-per-task=4\<newline>'' @
     ''#SBATCH --mem=32G\<newline>'' @
     ''#SBATCH --time=4:00:00\<newline>\<newline>'' @
     ''echo $SLURM_JOB_ID\<newline>'' @
     ''echo $HOSTNAME\<newline>''"

definition input_arg_text :: "SLURMPipelineRunner \<Rightarrow> string" where
  "input_arg_text r =
     (case s_cm4ai_image r of
        Some t \<Rightarrow> ''--cm4ai_table '' @ t
      | None \<Rightarrow> ''--samples '' @ the (s_samples r) @ '' --unique '' @ the (s_unique r))"

definition inputs_given :: "SLURMPipelineRunner \<Rightarrow> bool" where
  "inputs_given r =
     ((s_cm4ai_image r \<noteq> None \<or> (s_samples r \<noteq> None \<and> s_unique r \<noteq> None)) \<and>
      s_provenance r \<noteq> None)"

definition fake_flag :: "SLURMPipelineRunner \<Rightarrow> string \<Rightarrow> string" where
  "fake_flag r flag = (if s_fake r = Some True then flag else [])"

text \<open>
  The name line 317 builds for a fold's co-embedding job: \<^verbatim>\<open>'f' + str(t) + '_coembed_job'\<close>
  with \<^verbatim>\<open>str\<close> of the whole tuple, where the image-embedding line four lines above takes
  \<^verbatim>\<open>str(t[0])\<close>. With parentheses, quotes, commas and blanks in it, it is no name of a
  shell variable.
\<close>

definition coembed_job_name :: "int \<times> string \<times> string \<Rightarrow> string" where
  "coembed_job_name t = ''f'' @ str_tuple t @ ''_coembed_job''"

text \<open>Two worlds differ at most in the files written.\<close>

definition files_only :: "world \<Rightarrow> world \<Rightarrow> bool" where
  "files_only w w' =
     (dirs w' = dirs w \<and> calls w' = calls w \<and> warns w' = warns w \<and> logged w' = logged w \<and>
      start_json w' = start_json w \<and> finish_json w' = finish_json w)"

text \<open>
  Notions for \<^verbatim>\<open>CellmapsPipeline.run\<close>: the status the finish marker records for an
  outcome of the runner; \<open>root_usable\<close>, the output root is a directory or can be made
  one; and the world in which the runner then starts (output root created if absent,
  start marker written).
\<close>

definition root_usable :: "string \<Rightarrow> world \<Rightarrow> bool" where
  "root_usable d w = (isdir d w \<or> files w d = None)"

definition recorded_status :: "error + pyval \<Rightarrow> pyval" where
  "recorded_status res = (case res of Inl e \<Rightarrow> PyInt 99 | Inr c \<Rightarrow> c)"

definition started ::
    "string \<Rightarrow> int \<Rightarrow> (string \<times> string) list option \<Rightarrow> string \<Rightarrow> world \<Rightarrow> world" where
  "started d now idd version w =
     write_task_start_json d now idd version
       (if \<not> isdir d w then w\<lparr>dirs := insert d (dirs w)\<rparr> else w)"

text \<open>
  A concrete batch-scheduler runner, as the constructor returns it
  (\<open>example_slurm_init\<close>), and the job scripts written for the folds 1 and 2.
\<close>

definition example_slurm :: "int list \<Rightarrow> SLURMPipelineRunner" where
  "example_slurm fs =
     \<lparr>outdir = ''/out'', s_cm4ai_image = Some ''table.tsv'', s_samples = None,
      s_unique = None, s_fake = None, s_provenance = Some ''prov.json'',
      s_slurm_partition = None, s_slurm_account = None,
      s_image_dir = ''/out/1.image_download'',
      s_ppi_dir = ''/out/1.ppi_download'',
      s_ppi_embed_dir = ''/out/2.ppi_embedding'',
      s_image_coembed_tuples =
        map (\<lambda>f. (f, ''/out/2.image_embedding_fold'' @ str_int f, ''/out/3.coembedding_fold'' @ str_int f)) fs,
      s_hierarchy_dir = ''/out/4.hierarchy''\<rparr>"

definition job_script_names :: "string list" where
  "job_script_names =
     [''imagedownloadjob.sh'', ''ppidownloadjob.sh'', ''ppiembedjob.sh'', ''imageembedjob1.sh'',
      ''coembeddingjob1.sh'', ''imageembedjob2.sh'', ''coembeddingjob2.sh'', ''hierarchyjob.sh'']"

text \<open>Workers of which only the image embedding fails.\<close>

definition image_embed_fails :: "int \<Rightarrow> stages" where
  "image_embed_fails c k ds = ((if is_image_embedder k then c else 0), ds)"

section \<open>Strings and paths\<close>

lemma digit_char_is_digit: "n < 10 \<Longrightarrow> is_digit (digit_char n)"
proof -
  assume "n < 10"
  then have "n < length ''0123456789''" by simp
  then have "''0123456789'' ! n \<in> set ''0123456789''" by (rule nth_mem)
  then show ?thesis by (simp only: digit_char_def is_digit_def)
qed

lemma digit_char_inj: "n < 10 \<Longrightarrow> m < 10 \<Longrightarrow> digit_char n = digit_char m \<Longrightarrow> n = m"
proof -
  assume a: "n < 10" "m < 10" "digit_char n = digit_char m"
  have d: "distinct ''0123456789''" by simp
  from a show ?thesis
    unfolding digit_char_def using d nth_eq_iff_index_eq[OF d, of n m] by simp
qed

lemma str_nat_nonempty: "str_nat n \<noteq> []"
  by (subst str_nat.simps) simp

lemma str_nat_digits: "list_all is_digit (str_nat n)"
proof (induction n rule: str_nat.induct)
  case (1 n)
  show ?case
  proof (cases "n < 10")
    case True
    then show ?thesis by (subst str_nat.simps) (simp add: digit_char_is_digit)
  next
    case False
    then have "list_all is_digit (str_nat (n div 10))" using 1 by simp
    moreover have "is_digit (digit_char (n mod 10))" by (simp add: digit_char_is_digit)
    ultimately show ?thesis using False by (subst str_nat.simps) simp
  qed
qed

lemma str_nat_inj: "str_nat n = str_nat m \<Longrightarrow> n = m"
proof (induction n arbitrary: m rule: str_nat.induct)
  case (1 n)
  show ?case
  proof (cases "n < 10")
    case True
    show ?thesis
    proof (cases "m < 10")
      case mt: True
      from 1(2) True mt have "digit_char n = digit_char m"
        by (simp add: str_nat.simps[of n] str_nat.simps[of m])
      then show ?thesis using True mt by (rule_tac digit_char_inj)
    next
      case mf: False
      from 1(2) True mf have "[digit_char n] = str_nat (m div 10) @ [digit_char (m mod 10)]"
        by (simp add: str_nat.simps[of n] str_nat.simps[of m])
      then show ?thesis using str_nat_nonempty[of "m div 10"] by simp
    qed
  next
    case False
    show ?thesis
    proof (cases "m < 10")
      case mt: True
      from 1(2) False mt have "str_nat (n div 10) @ [digit_char (n mod 10)] = [digit_char m]"
        by (simp add: str_nat.simps[of n] str_nat.simps[of m])
      then show ?thesis using str_nat_nonempty[of "n div 10"] by simp
    next
      case mf: False
      from 1(2) False mf
      have e: "str_nat (n div 10) @ [digit_char (n mod 10)] = str_nat (m div 10) @ [digit_char (m mod 10)]"
        by (simp add: str_nat.simps[of n] str_nat.simps[of m])
      then have "str_nat (n div 10) = str_nat (m div 10)" and d: "digit_char (n mod 10) = digit_char (m mod 10)"
        by simp_all
      then have "n div 10 = m div 10" using 1(1)[OF False] by simp
      moreover have "n mod 10 = m mod 10" using d by (intro digit_char_inj) simp_all
      ultimately show ?thesis by (metis div_mult_mod_eq)
    qed
  qed
qed

lemma str_int_pos: "0 \<le> i \<Longrightarrow> str_int i = str_nat (nat i)"
  by (simp add: str_int_def)

lemma str_int_1: "str_int 1 = ''1''"
  by (simp add: str_int_def str_nat.simps digit_char_def)

lemma str_int_2: "str_int 2 = ''2''"
  by (simp add: str_int_def str_nat.simps digit_char_def)

lemma str_int_inj_pos: "0 \<le> i \<Longrightarrow> 0 \<le> j \<Longrightarrow> str_int i = str_int j \<Longrightarrow> i = j"
  using str_nat_inj[of "nat i" "nat j"] by (simp add: str_int_pos)

lemma os_path_join_inj:
  "\<not> starts_with_sep b \<Longrightarrow> \<not> starts_with_sep c \<Longrightarrow> os_path_join a b = os_path_join a c \<Longrightarrow> b = c"
  by (simp add: os_path_join_def split: if_splits)

lemma digit_suffix_unique:
  assumes eq: "xs @ a = ys @ b"
    and a: "list_all is_digit a" and b: "list_all is_digit b"
    and xs: "xs \<noteq> []" "\<not> is_digit (last xs)"
    and ys: "ys \<noteq> []" "\<not> is_digit (last ys)"
  shows "xs = ys \<and> a = b"
proof -
  from eq obtain us where "(xs = ys @ us \<and> us @ a = b) \<or> (xs @ us = ys \<and> a = us @ b)"
    by (auto simp: append_eq_append_conv2)
  then show ?thesis
  proof
    assume h: "xs = ys @ us \<and> us @ a = b"
    have "us = []"
    proof (rule ccontr)
      assume "us \<noteq> []"
      then have "last xs = last us" using h by simp
      moreover have "last us \<in> set b" using h \<open>us \<noteq> []\<close> by auto
      ultimately show False using b xs by (auto simp: list_all_iff)
    qed
    then show ?thesis using h by simp
  next
    assume h: "xs @ us = ys \<and> a = us @ b"
    have "us = []"
    proof (rule ccontr)
      assume "us \<noteq> []"
      then have "last ys = last us" using h by auto
      moreover have "last us \<in> set a" using h \<open>us \<noteq> []\<close> by auto
      ultimately show False using a ys by (auto simp: list_all_iff)
    qed
    then show ?thesis using h by simp
  qed
qed

lemma valid_example_constants: "valid_step_dirs example_constants"
  by (simp add: valid_step_dirs_def example_constants_def is_digit_def)

lemma str_int_digits: "0 \<le> f \<Longrightarrow> list_all is_digit (str_int f)"
  by (simp add: str_int_pos str_nat_digits)

lemma str_int_nonempty: "str_int f \<noteq> []"
  by (simp add: str_int_def str_nat_nonempty)

lemma last_fold_name_digit: "0 \<le> f \<Longrightarrow> is_digit (last (n @ str_int f))"
proof -
  assume "0 \<le> f"
  then have "list_all is_digit (str_int f)" by (rule str_int_digits)
  moreover have "last (str_int f) \<in> set (str_int f)" using str_int_nonempty by simp
  ultimately have "is_digit (last (str_int f))" by (simp add: list_all_iff)
  then show ?thesis using str_int_nonempty by simp
qed

lemma fold_names_distinct:
  assumes "distinct fs" and "\<forall>f\<in>set fs. 0 < f"
  shows "distinct (map (\<lambda>f. n @ str_int f) fs)"
proof -
  have "inj_on (\<lambda>f. n @ str_int f) (set fs)"
    using assms(2) by (auto intro!: inj_onI dest!: str_int_inj_pos[rotated 2])
  then show ?thesis using assms(1) by (simp add: distinct_map)
qed

lemma single_ne_fold_name:
  "\<not> is_digit (last n) \<Longrightarrow> 0 \<le> f \<Longrightarrow> n \<noteq> m @ str_int f"
  using last_fold_name_digit[of f m] by auto

lemma valid_step_dirsD:
  assumes "valid_step_dirs C"
  shows "distinct [IMAGE_DOWNLOAD_STEP_DIR C, PPI_DOWNLOAD_STEP_DIR C, PPI_EMBEDDING_STEP_DIR C,
                   HIERARCHY_STEP_DIR C]"
    and "IMAGE_EMBEDDING_STEP_DIR C \<noteq> COEMBEDDING_STEP_DIR C"
    and "\<not> is_digit (last (IMAGE_DOWNLOAD_STEP_DIR C))"
    and "\<not> is_digit (last (PPI_DOWNLOAD_STEP_DIR C))"
    and "\<not> is_digit (last (PPI_EMBEDDING_STEP_DIR C))"
    and "\<not> is_digit (last (HIERARCHY_STEP_DIR C))"
    and "\<not> is_digit (last (IMAGE_EMBEDDING_STEP_DIR C))"
    and "\<not> is_digit (last (COEMBEDDING_STEP_DIR C))"
    and "IMAGE_EMBEDDING_STEP_DIR C \<noteq> []" and "COEMBEDDING_STEP_DIR C \<noteq> []"
  using assms by (simp_all add: valid_step_dirs_def)

lemma valid_step_dirs_no_sep:
  assumes "valid_step_dirs C"
  shows "\<not> starts_with_sep (IMAGE_DOWNLOAD_STEP_DIR C)"
    and "\<not> starts_with_sep (PPI_DOWNLOAD_STEP_DIR C)"
    and "\<not> starts_with_sep (PPI_EMBEDDING_STEP_DIR C)"
    and "\<not> starts_with_sep (HIERARCHY_STEP_DIR C)"
    and "\<not> starts_with_sep (IMAGE_EMBEDDING_STEP_DIR C @ s)"
    and "\<not> starts_with_sep (COEMBEDDING_STEP_DIR C @ s)"
  using assms by (simp_all add: valid_step_dirs_def starts_with_sep_def)

lemma step_names_distinct:
  assumes v: "valid_step_dirs C" and d: "distinct fs" and p: "\<forall>f\<in>set fs. 0 < f"
  shows "distinct (step_names C fs)"
proof -
  let ?IE = "IMAGE_EMBEDDING_STEP_DIR C" and ?CO = "COEMBEDDING_STEP_DIR C"
  let ?A = "[IMAGE_DOWNLOAD_STEP_DIR C, PPI_DOWNLOAD_STEP_DIR C, PPI_EMBEDDING_STEP_DIR C,
             HIERARCHY_STEP_DIR C]"
  let ?B = "map (\<lambda>f. ?IE @ str_int f) fs" and ?D = "map (\<lambda>f. ?CO @ str_int f) fs"
  note vd = valid_step_dirsD[OF v]
  have nn: "0 \<le> f" if "f \<in> set fs" for f using p that by force
  have A: "\<not> is_digit (last n)" if "n \<in> set ?A" for n
    using that vd(3-6) by auto
  have B: "is_digit (last n)" if "n \<in> set ?B \<union> set ?D" for n
    using that nn by (auto simp: last_fold_name_digit)
  have AB: "set ?A \<inter> (set ?B \<union> set ?D) = {}"
    using A B by blast
  have BD: "set ?B \<inter> set ?D = {}"
  proof (rule ccontr)
    assume "set ?B \<inter> set ?D \<noteq> {}"
    then obtain n where "n \<in> set ?B" "n \<in> set ?D" by blast
    then obtain f g where f: "f \<in> set fs" and g: "g \<in> set fs"
      and e: "?IE @ str_int f = ?CO @ str_int g" by auto
    have "?IE = ?CO \<and> str_int f = str_int g"
      using vd nn[OF f] nn[OF g] by (intro digit_suffix_unique[OF e] str_int_digits)
    then show False using vd(2) by simp
  qed
  have dB: "distinct ?B" and dD: "distinct ?D"
    using d p by (rule fold_names_distinct)+
  have "distinct (?B @ ?D)" using dB dD BD by (simp only: distinct_append simp_thms)
  moreover have "set ?A \<inter> set (?B @ ?D) = {}" using AB by (simp only: set_append)
  ultimately have "distinct (?A @ (?B @ ?D))"
    using vd(1) by (simp only: distinct_append simp_thms)
  then show ?thesis by (simp only: step_names_def)
qed

lemma step_names_no_sep:
  assumes v: "valid_step_dirs C" and n: "n \<in> set (step_names C fs)"
  shows "\<not> starts_with_sep n"
proof -
  note ns = valid_step_dirs_no_sep[OF v]
  from n consider "n \<in> {IMAGE_DOWNLOAD_STEP_DIR C, PPI_DOWNLOAD_STEP_DIR C,
        PPI_EMBEDDING_STEP_DIR C, HIERARCHY_STEP_DIR C}"
    | f where "n = IMAGE_EMBEDDING_STEP_DIR C @ str_int f"
    | f where "n = COEMBEDDING_STEP_DIR C @ str_int f"
    unfolding step_names_def by auto
  then show ?thesis
  proof cases
    case 1
    then show ?thesis using ns(1-4) by blast
  next
    case 2
    then show ?thesis using ns(5) by simp
  next
    case 3
    then show ?thesis using ns(6) by simp
  qed
qed

lemma joined_step_names_distinct:
  assumes v: "valid_step_dirs C" and d: "distinct fs" and p: "\<forall>f\<in>set fs. 0 < f"
  shows "distinct (map (os_path_join a) (step_names C fs))"
proof -
  have "inj_on (os_path_join a) (set (step_names C fs))"
  proof (rule inj_onI)
    fix x y
    assume "x \<in> set (step_names C fs)" "y \<in> set (step_names C fs)"
      and e: "os_path_join a x = os_path_join a y"
    then have "\<not> starts_with_sep x" "\<not> starts_with_sep y"
      using step_names_no_sep[OF v] by blast+
    then show "x = y" using e by (rule os_path_join_inj)
  qed
  then show ?thesis using step_names_distinct[OF v d p] by (simp add: distinct_map)
qed

lemma SLURM_init_stage_paths:
  assumes "SLURMPipelineRunner_init abspath C od ci sm un fk pv (Some fs) sp sa = Inr r"
  shows "\<exists>d. od = Some d \<and> stage_paths r = map (os_path_join (abspath d)) (step_names C fs)"
proof (cases od)
  case None
  then show ?thesis using assms
    by (simp add: SLURMPipelineRunner_init_def PipelineRunner_init_def)
next
  case (Some d)
  then have "r = \<lparr>outdir = abspath d, s_cm4ai_image = ci, s_samples = sm, s_unique = un,
      s_fake = fk, s_provenance = pv, s_slurm_partition = sp, s_slurm_account = sa,
      s_image_dir = os_path_join (abspath d) (IMAGE_DOWNLOAD_STEP_DIR C),
      s_ppi_dir = os_path_join (abspath d) (PPI_DOWNLOAD_STEP_DIR C),
      s_ppi_embed_dir = os_path_join (abspath d) (PPI_EMBEDDING_STEP_DIR C),
      s_image_coembed_tuples = map (\<lambda>fold_val.
                 (fold_val,
                  os_path_join (abspath d) (IMAGE_EMBEDDING_STEP_DIR C @ str_int fold_val),
                  os_path_join (abspath d) (COEMBEDDING_STEP_DIR C @ str_int fold_val))) fs,
      s_hierarchy_dir = os_path_join (abspath d) (HIERARCHY_STEP_DIR C)\<rparr>"
    using assms
    by (simp add: SLURMPipelineRunner_init_def PipelineRunner_init_def
        get_image_coembed_tuples_def)
  then have "stage_paths r = map (os_path_join (abspath d)) (step_names C fs)"
    by (simp add: stage_paths_def step_names_def comp_def)
  then show ?thesis using Some by simp
qed

section \<open>The constructors\<close>

text \<open>
  Claim C9. For every output root and every list of distinct positive folds, the
  constructor stores, for each fold in order, the fold with its image-embedding and
  co-embedding directories; the output paths of ImageDownload, PPIDownload, PPIEmbed,
  Hierarchy and each fold's ImageEmbed and CoEmbed are the step names joined to the
  output root, four plus two for every fold, and they are pairwise distinct. The step
  directory names come from \<^verbatim>\<open>cellmaps_utils\<close>; the property holds for every choice of
  them that satisfies \<open>valid_step_dirs\<close>.
\<close>

theorem stage_paths_distinct:
  assumes "valid_step_dirs C" and "distinct fs" and "\<forall>f\<in>set fs. 0 < f"
    and "SLURMPipelineRunner_init abspath C (Some d) ci sm un fk pv (Some fs) sp sa = Inr r"
  shows "s_image_coembed_tuples r =
           map (\<lambda>f. (f, os_path_join (abspath d) (IMAGE_EMBEDDING_STEP_DIR C @ str_int f),
                        os_path_join (abspath d) (COEMBEDDING_STEP_DIR C @ str_int f))) fs \<and>
         stage_paths r = map (os_path_join (abspath d)) (step_names C fs) \<and>
         length (stage_paths r) = 4 + 2 * length fs \<and>
         distinct (stage_paths r)"
proof -
  from assms(4) have t: "s_image_coembed_tuples r =
           map (\<lambda>f. (f, os_path_join (abspath d) (IMAGE_EMBEDDING_STEP_DIR C @ str_int f),
                        os_path_join (abspath d) (COEMBEDDING_STEP_DIR C @ str_int f))) fs"
    by (auto simp: SLURMPipelineRunner_init_def PipelineRunner_init_def
        get_image_coembed_tuples_def)
  from SLURM_init_stage_paths[OF assms(4)]
  have p: "stage_paths r = map (os_path_join (abspath d)) (step_names C fs)" by simp
  have l: "length (stage_paths r) = 4 + 2 * length fs"
    unfolding p by (simp add: step_names_def)
  from t p l joined_step_names_distinct[OF assms(1-3), of "abspath d"] show ?thesis by simp
qed

text \<open>The theorem at the folds 1 and 2 under \<^verbatim>\<open>/out\<close>, with the example names.\<close>

theorem stage_paths_distinct_witness:
  "valid_step_dirs example_constants \<and> distinct [1, 2 :: int] \<and> (0::int) < 1 \<and> (0::int) < 2 \<and>
   (case SLURMPipelineRunner_init (\<lambda>p. p) example_constants (Some ''/out'') None None None None
           None (Some [1, 2]) None None of
      Inl e \<Rightarrow> False
    | Inr r \<Rightarrow>
        s_image_coembed_tuples r =
          [(1, ''/out/2.image_embedding_fold1'', ''/out/3.coembedding_fold1''),
           (2, ''/out/2.image_embedding_fold2'', ''/out/3.coembedding_fold2'')] \<and>
        stage_paths r =
          [''/out/1.image_download'', ''/out/1.ppi_download'', ''/out/2.ppi_embedding'',
           ''/out/4.hierarchy'', ''/out/2.image_embedding_fold1'',
           ''/out/2.image_embedding_fold2'', ''/out/3.coembedding_fold1'',
           ''/out/3.coembedding_fold2''] \<and>
        length (stage_paths r) = 8 \<and>
        distinct (stage_paths r))"
proof -
  obtain r where r: "SLURMPipelineRunner_init (\<lambda>p. p) example_constants (Some ''/out'') None None
      None None None (Some [1, 2]) None None = Inr r"
    by (simp add: SLURMPipelineRunner_init_def PipelineRunner_init_def
        get_image_coembed_tuples_def)
  have n: "map (os_path_join ''/out'') (step_names example_constants [1, 2]) =
          [''/out/1.image_download'', ''/out/1.ppi_download'', ''/out/2.ppi_embedding'',
           ''/out/4.hierarchy'', ''/out/2.image_embedding_fold1'',
           ''/out/2.image_embedding_fold2'', ''/out/3.coembedding_fold1'',
           ''/out/3.coembedding_fold2'']"
    by (simp add: step_names_def example_constants_def os_path_join_def starts_with_sep_def
        str_int_1 str_int_2)
  have c: "IMAGE_EMBEDDING_STEP_DIR example_constants = ''2.image_embedding_fold''"
    "COEMBEDDING_STEP_DIR example_constants = ''3.coembedding_fold''"
    by (simp_all add: example_constants_def)
  have d: "distinct [1, 2 :: int]" "\<forall>f\<in>set [1, 2 :: int]. 0 < f" by simp_all
  note th = stage_paths_distinct[OF valid_example_constants d r]
  from th have "s_image_coembed_tuples r =
          [(1, ''/out/2.image_embedding_fold1'', ''/out/3.coembedding_fold1''),
           (2, ''/out/2.image_embedding_fold2'', ''/out/3.coembedding_fold2'')]"
    by (simp add: c os_path_join_def starts_with_sep_def str_int_1 str_int_2)
  moreover from th have "stage_paths r =
          [''/out/1.image_download'', ''/out/1.ppi_download'', ''/out/2.ppi_embedding'',
           ''/out/4.hierarchy'', ''/out/2.image_embedding_fold1'',
           ''/out/2.image_embedding_fold2'', ''/out/3.coembedding_fold1'',
           ''/out/3.coembedding_fold2'']"
    unfolding n by simp
  moreover from th[THEN conjunct2, THEN conjunct2, THEN conjunct1]
  have "length (stage_paths r) = 8" by simp
  moreover from th[THEN conjunct2, THEN conjunct2, THEN conjunct2]
  have "distinct (stage_paths r)" .
  ultimately show ?thesis using r valid_example_constants by simp
qed

text \<open>
  Claim C5, as the code has it. A fold argument of \<^verbatim>\<open>None\<close> makes the construction of
  either runner fail with \<^verbatim>\<open>CellmapsPipelineError('Fold cannot be None')\<close> (given an
  output directory, whose absence raises first); the constructors are pure, so no stage
  has run. An empty fold list is accepted and gives a runner without per-fold stages.
\<close>

theorem fold_none_rejected:
  "get_image_coembed_tuples C d None = Inl (CellmapsPipelineError ''Fold cannot be None'') \<and>
   SLURMPipelineRunner_init abspath C (Some od) ci sm un fk pv None sp sa =
     Inl (CellmapsPipelineError ''Fold cannot be None'') \<and>
   ProgrammaticPipelineRunner_init abspath C (Some od) fk None =
     Inl (CellmapsPipelineError ''Fold cannot be None'') \<and>
   map_sum id s_image_coembed_tuples
     (SLURMPipelineRunner_init abspath C (Some od) ci sm un fk pv (Some []) sp sa) = Inr [] \<and>
   map_sum id p_image_coembed_tuples
     (ProgrammaticPipelineRunner_init abspath C (Some od) fk (Some [])) = Inr []"
  by (simp add: SLURMPipelineRunner_init_def ProgrammaticPipelineRunner_init_def
      PipelineRunner_init_def get_image_coembed_tuples_def)

text \<open>The claim as stated fails on the empty fold list: both constructions succeed.\<close>

theorem empty_fold_accepted:
  "ProgrammaticPipelineRunner_init (\<lambda>p. p) example_constants (Some ''/out'') None (Some []) =
     Inr \<lparr>outdir = ''/out'', p_fake = None,
          p_image_dir = ''/out/1.image_download'',
          p_ppi_dir = ''/out/1.ppi_download'',
          p_ppi_embed_dir = ''/out/2.ppi_embedding'',
          p_image_coembed_tuples = [],
          p_hierarchy_dir = ''/out/4.hierarchy''\<rparr> \<and>
   SLURMPipelineRunner_init (\<lambda>p. p) example_constants (Some ''/out'') (Some ''table.tsv'') None
       None None (Some ''prov.json'') (Some []) None None =
     Inr \<lparr>outdir = ''/out'', s_cm4ai_image = Some ''table.tsv'', s_samples = None,
          s_unique = None, s_fake = None, s_provenance = Some ''prov.json'',
          s_slurm_partition = None, s_slurm_account = None,
          s_image_dir = ''/out/1.image_download'',
          s_ppi_dir = ''/out/1.ppi_download'',
          s_ppi_embed_dir = ''/out/2.ppi_embedding'',
          s_image_coembed_tuples = [],
          s_hierarchy_dir = ''/out/4.hierarchy''\<rparr>"
  by (simp add: SLURMPipelineRunner_init_def ProgrammaticPipelineRunner_init_def
      PipelineRunner_init_def get_image_coembed_tuples_def example_constants_def
      os_path_join_def starts_with_sep_def)

section \<open>Invocation traces of the in-process runner\<close>

lemma trace_ok_refl: "trace_ok None w w"
  by (simp add: trace_ok_def zero_codes_def)

lemma trace_ok_warn: "trace_ok res (warn m w) w' = trace_ok res w w'"
  by (simp add: trace_ok_def warn_def)

lemma trace_ok_warn2: "trace_ok res w (warn m w') = trace_ok res w w'"
  by (simp add: trace_ok_def warn_def)

lemma trace_ok_log2: "trace_ok res w (log_error m w') = trace_ok res w w'"
  by (simp add: trace_ok_def log_error_def)

lemma trace_ok_trans:
  assumes "trace_ok None w w1" and "trace_ok res w1 w2"
  shows "trace_ok res w w2"
proof -
  from assms(1) obtain cs where cs: "calls w1 = calls w @ cs" "zero_codes cs"
    and f1: "finish_json w1 = finish_json w"
    by (auto simp: trace_ok_def)
  show ?thesis
  proof (cases res)
    case None
    with assms(2) obtain ds where "calls w2 = calls w1 @ ds" "zero_codes ds"
      and "finish_json w2 = finish_json w1"
      by (auto simp: trace_ok_def)
    then show ?thesis using cs f1 None
      by (auto simp: trace_ok_def zero_codes_def intro!: exI[of _ "cs @ ds"])
  next
    case (Some e)
    with assms(2) obtain pre k c where "calls w2 = calls w1 @ pre @ [(k, c)]" "zero_codes pre"
      "c \<noteq> 0" "e = failure_of k" and "finish_json w2 = finish_json w1"
      by (auto simp: trace_ok_def)
    then show ?thesis using cs f1 Some
      by (auto simp: trace_ok_def zero_codes_def intro!: exI[of _ "cs @ pre"])
  qed
qed

lemma trace_ok_invoke:
  assumes "invoke ext k w = (c, w')"
  shows "trace_ok (if c = 0 then None else Some (failure_of k)) w w'"
proof -
  from assms have "calls w' = calls w @ [(k, c)]" and "finish_json w' = finish_json w"
    by (auto simp: invoke_def split: prod.splits)
  then show ?thesis
    by (auto simp: trace_ok_def zero_codes_def)
qed

lemma trace_ok_invoke_labelled:
  assumes "invoke ext k w = (c, w')" and "\<not> is_image_embedder k"
    and "stage_label k @ '' failed'' = msg"
  shows "trace_ok (if c = 0 then None else Some (CellmapsPipelineError msg)) w w'"
  using trace_ok_invoke[OF assms(1)] assms(2,3)
  by (cases "c = 0") (simp_all add: failure_of_def)

lemma trace_ok_download_images:
  assumes "download_images ext r w = (c, w')"
  shows "trace_ok (if c = 0 then None else Some (CellmapsPipelineError ''Image download failed'')) w w'"
proof (cases "isdir (p_image_dir r) w")
  case True
  then show ?thesis using assms by (auto simp: download_images_def trace_ok_warn2 trace_ok_refl)
next
  case False
  show ?thesis
  proof (cases "p_fake r = Some True")
    case True
    with False assms
    have "invoke ext (CellmapsImageDownloader (p_image_dir r) FakeImageDownloader)
            (warn ''FAKE IMAGES ARE BEING DOWNLOADED!!!!!'' w) = (c, w')"
      by (simp add: download_images_def)
    from trace_ok_invoke_labelled[OF this] show ?thesis
      by (simp add: stage_label_def is_image_embedder_def trace_ok_warn)
  next
    case nf: False
    with False assms
    have "invoke ext (CellmapsImageDownloader (p_image_dir r) MultiProcessImageDownloader) w =
            (c, w')"
      by (simp add: download_images_def)
    from trace_ok_invoke_labelled[OF this] show ?thesis
      by (simp add: stage_label_def is_image_embedder_def)
  qed
qed

lemma trace_ok_download_ppi:
  assumes "download_ppi ext r w = (c, w')"
  shows "trace_ok (if c = 0 then None else Some (CellmapsPipelineError ''PPI download failed'')) w w'"
proof (cases "isdir (p_ppi_dir r) w")
  case True
  then show ?thesis using assms by (auto simp: download_ppi_def trace_ok_warn2 trace_ok_refl)
next
  case False
  then have "invoke ext (CellmapsPPIDownloader (p_ppi_dir r)) w = (c, w')"
    using assms by (simp add: download_ppi_def)
  from trace_ok_invoke_labelled[OF this] show ?thesis
    by (simp add: stage_label_def is_image_embedder_def)
qed

lemma trace_ok_embed_ppi:
  assumes "embed_ppi ext r w = (c, w')"
  shows "trace_ok (if c = 0 then None else Some (CellmapsPipelineError ''PPI embed failed'')) w w'"
proof (cases "isdir (p_ppi_embed_dir r) w")
  case True
  then show ?thesis using assms by (auto simp: embed_ppi_def trace_ok_warn2 trace_ok_refl)
next
  case False
  then have "invoke ext (CellMapsPPIEmbedder (p_ppi_embed_dir r) (p_ppi_dir r)) w = (c, w')"
    using assms by (simp add: embed_ppi_def)
  from trace_ok_invoke_labelled[OF this] show ?thesis
    by (simp add: stage_label_def is_image_embedder_def)
qed

lemma trace_ok_hierarchy:
  assumes "hierarchy ext r w = (c, w')"
  shows "trace_ok (if c = 0 then None else Some (CellmapsPipelineError ''Hierarchy failed'')) w w'"
proof (cases "isdir (p_hierarchy_dir r) w")
  case True
  then show ?thesis using assms by (auto simp: hierarchy_def trace_ok_warn2 trace_ok_refl)
next
  case False
  then have "invoke ext (CellmapsGenerateHierarchy (p_hierarchy_dir r)
                (map (\<lambda>t. snd (snd t)) (p_image_coembed_tuples r))) w = (c, w')"
    using assms by (simp add: hierarchy_def)
  from trace_ok_invoke_labelled[OF this] show ?thesis
    by (simp add: stage_label_def is_image_embedder_def)
qed

lemma trace_ok_embed_image_loop:
  "embed_image_loop ext r ts w = (res, w') \<Longrightarrow>
   (res = Inr 0 \<and> trace_ok None w w') \<or> (res = Inl TypeError \<and> trace_ok (Some TypeError) w w')"
proof (induction ts arbitrary: w)
  case Nil
  then show ?case by (auto simp: trace_ok_refl)
next
  case (Cons t ts)
  show ?case
  proof (cases "isdir (fst (snd t)) w")
    case True
    with Cons.prems obtain m where "embed_image_loop ext r ts (warn m w) = (res, w')"
      by auto
    from Cons.IH[OF this] show ?thesis by (simp add: trace_ok_warn)
  next
    case False
    define k where "k = CellmapsImageEmbedder (fst (snd t)) (p_image_dir r)
      (if p_fake r = Some True then FakeEmbeddingGenerator (p_image_dir r)
       else DensenetEmbeddingGenerator (p_image_dir r) (fst (snd t)) (fst t))"
    obtain c w1 where inv: "invoke ext k w = (c, w1)" by (cases "invoke ext k w")
    have emb: "is_image_embedder k" by (simp add: k_def is_image_embedder_def)
    from Cons.prems False inv
    have rest: "(if c \<noteq> 0 then (Inl TypeError, w1) else embed_image_loop ext r ts w1) = (res, w')"
      by (simp add: k_def)
    note t1 = trace_ok_invoke[OF inv]
    show ?thesis
    proof (cases "c = 0")
      case True
      with rest have "embed_image_loop ext r ts w1 = (res, w')" by simp
      from Cons.IH[OF this] t1 True show ?thesis
        by (auto intro: trace_ok_trans)
    next
      case False
      with rest t1 emb show ?thesis by (auto simp: failure_of_def)
    qed
  qed
qed

lemma trace_ok_coembed_loop:
  "coembed_loop ext r ts w = (c, w') \<Longrightarrow>
   trace_ok (if c = 0 then None else Some (CellmapsPipelineError ''Coembed failed'')) w w'"
proof (induction ts arbitrary: w)
  case Nil
  then show ?case by (auto simp: trace_ok_refl)
next
  case (Cons t ts)
  show ?case
  proof (cases "isdir (snd (snd t)) w")
    case True
    with Cons.prems obtain m where "coembed_loop ext r ts (warn m w) = (c, w')"
      by auto
    from Cons.IH[OF this] show ?thesis by (simp add: trace_ok_warn)
  next
    case False
    define k where "k = CellmapsCoEmbedder (snd (snd t)) [fst (snd t), p_ppi_embed_dir r]
      (if p_fake r = Some True
       then FakeCoEmbeddingGenerator (p_ppi_embed_dir r) (fst (snd t))
       else MuseCoEmbeddingGenerator (snd (snd t)) (p_ppi_embed_dir r) (fst (snd t)))"
    obtain c1 w1 where inv: "invoke ext k w = (c1, w1)" by (cases "invoke ext k w")
    from Cons.prems False inv
    have nz: "c1 \<noteq> 0 \<Longrightarrow> c = c1 \<and> (\<exists>m. w' = log_error m w1)"
      and z: "c1 = 0 \<Longrightarrow> coembed_loop ext r ts w1 = (c, w')"
      by (auto simp: k_def)
    note t1 = trace_ok_invoke_labelled[OF inv, of "''Coembed failed''"]
    have t2: "trace_ok (if c1 = 0 then None else Some (CellmapsPipelineError ''Coembed failed'')) w w1"
      by (rule t1) (simp_all add: k_def is_image_embedder_def stage_label_def)
    show ?thesis
    proof (cases "c1 = 0")
      case True
      from Cons.IH[OF z[OF True]] t2 True show ?thesis
        by (auto intro: trace_ok_trans)
    next
      case False
      from nz[OF False] obtain m where "c = c1" "w' = log_error m w1" by blast
      with t2 False show ?thesis by (simp add: trace_ok_log2)
    qed
  qed
qed

lemma trace_ok_run:
  assumes "ProgrammaticPipelineRunner_run ext r w = (res, w')"
  shows "(res = Inr (PyInt 0) \<and> trace_ok None w w') \<or>
         (\<exists>e. res = Inl e \<and> trace_ok (Some e) w w')"
proof -
  obtain c1 w1 where s1: "download_images ext r w = (c1, w1)" by (cases "download_images ext r w")
  obtain c2 w2 where s2: "download_ppi ext r w1 = (c2, w2)" by (cases "download_ppi ext r w1")
  obtain c3 w3 where s3: "embed_ppi ext r w2 = (c3, w3)" by (cases "embed_ppi ext r w2")
  obtain r4 w4 where s4: "embed_image ext r w3 = (r4, w4)" by (cases "embed_image ext r w3")
  obtain c5 w5 where s5: "coembed ext r w4 = (c5, w5)" by (cases "coembed ext r w4")
  obtain c6 w6 where s6: "hierarchy ext r w5 = (c6, w6)" by (cases "hierarchy ext r w5")
  note t1 = trace_ok_download_images[OF s1]
  note t2 = trace_ok_download_ppi[OF s2]
  note t3 = trace_ok_embed_ppi[OF s3]
  note t4 = trace_ok_embed_image_loop[OF s4[unfolded embed_image_def]]
  note t5 = trace_ok_coembed_loop[OF s5[unfolded coembed_def]]
  note t6 = trace_ok_hierarchy[OF s6]
  show ?thesis
  proof (cases "c1 = 0")
    case False
    then have "res = Inl (CellmapsPipelineError ''Image download failed'')" "w' = w1"
      using assms s1 by (simp_all add: ProgrammaticPipelineRunner_run_def)
    then show ?thesis using t1 False by simp
  next
    case z1: True
    then have a1: "trace_ok None w w1" using t1 by simp
    show ?thesis
    proof (cases "c2 = 0")
      case False
      then have "res = Inl (CellmapsPipelineError ''PPI download failed'')" "w' = w2"
        using assms s1 s2 z1 by (simp_all add: ProgrammaticPipelineRunner_run_def)
      then show ?thesis using trace_ok_trans[OF a1] t2 False by simp
    next
      case z2: True
      then have a2: "trace_ok None w w2" using trace_ok_trans[OF a1] t2 by simp
      show ?thesis
      proof (cases "c3 = 0")
        case False
        then have "res = Inl (CellmapsPipelineError ''PPI embed failed'')" "w' = w3"
          using assms s1 s2 s3 z1 z2 by (simp_all add: ProgrammaticPipelineRunner_run_def)
        then show ?thesis using trace_ok_trans[OF a2] t3 False by simp
      next
        case z3: True
        then have a3: "trace_ok None w w3" using trace_ok_trans[OF a2] t3 by simp
        from t4 show ?thesis
        proof
          assume f: "r4 = Inl TypeError \<and> trace_ok (Some TypeError) w3 w4"
          then have "res = Inl TypeError" "w' = w4"
            using assms s1 s2 s3 s4 z1 z2 z3 by (simp_all add: ProgrammaticPipelineRunner_run_def)
          then show ?thesis using trace_ok_trans[OF a3] f by simp
        next
          assume z4: "r4 = Inr 0 \<and> trace_ok None w3 w4"
          then have a4: "trace_ok None w w4" using trace_ok_trans[OF a3] by simp
          show ?thesis
          proof (cases "c5 = 0")
            case False
            then have "res = Inl (CellmapsPipelineError ''Coembed failed'')" "w' = w5"
              using assms s1 s2 s3 s4 s5 z1 z2 z3 z4
              by (simp_all add: ProgrammaticPipelineRunner_run_def)
            then show ?thesis using trace_ok_trans[OF a4] t5 False by simp
          next
            case z5: True
            then have a5: "trace_ok None w w5" using trace_ok_trans[OF a4] t5 by simp
            show ?thesis
            proof (cases "c6 = 0")
              case False
              then have "res = Inl (CellmapsPipelineError ''Hierarchy failed'')" "w' = w6"
                using assms s1 s2 s3 s4 s5 s6 z1 z2 z3 z4 z5
                by (simp_all add: ProgrammaticPipelineRunner_run_def)
              then show ?thesis using trace_ok_trans[OF a5] t6 False by simp
            next
              case z6: True
              then have "res = Inr (PyInt 0)" "w' = w6"
                using assms s1 s2 s3 s4 s5 s6 z1 z2 z3 z4 z5
                by (simp_all add: ProgrammaticPipelineRunner_run_def)
              then show ?thesis using trace_ok_trans[OF a5] t6 z6 by simp
            qed
          qed
        qed
      qed
    qed
  qed
qed

lemma example_programmatic_init:
  "ProgrammaticPipelineRunner_init (\<lambda>p. p) example_constants (Some ''/out'') None (Some fs) =
     Inr (example_programmatic fs)"
  by (simp add: ProgrammaticPipelineRunner_init_def PipelineRunner_init_def
      get_image_coembed_tuples_def example_constants_def example_programmatic_def
      os_path_join_def starts_with_sep_def)

lemma zero_codes_snoc_nonzero:
  "zero_codes pre \<Longrightarrow> c \<noteq> 0 \<Longrightarrow> pre @ [(k, c)] = xs @ (k', c') # ys \<Longrightarrow> c' \<noteq> 0 \<Longrightarrow>
   ys = [] \<and> k' = k \<and> c' = c"
proof -
  assume z: "zero_codes pre" and c: "c \<noteq> 0" and e: "pre @ [(k, c)] = xs @ (k', c') # ys"
    and c': "c' \<noteq> 0"
  show ?thesis
  proof (cases ys rule: rev_cases)
    case Nil
    then show ?thesis using e by simp
  next
    case (snoc zs z)
    then have "pre = xs @ (k', c') # zs" using e by simp
    then have "(k', c') \<in> set pre" by simp
    then have "c' = 0" using z by (auto simp: zero_codes_def list_all_iff)
    then show ?thesis using c' by simp
  qed
qed

section \<open>Results of the in-process runner\<close>

text \<open>
  Claim C1, as the code has it. \<open>cs\<close> are the worker invocations of one \<^verbatim>\<open>run()\<close>.
  When every invoked stage returned 0 the runner returns 0. When a stage other than image
  embedding returned a nonzero code, the runner does not return that code: it raises
  \<^verbatim>\<open>CellmapsPipelineError\<close> whose message names the stage.
\<close>

theorem in_process_result:
  assumes "calls (snd (ProgrammaticPipelineRunner_run ext r w)) = calls w @ cs"
  shows "(zero_codes cs \<longrightarrow> fst (ProgrammaticPipelineRunner_run ext r w) = Inr (PyInt 0)) \<and>
         (\<forall>k c. (k, c) \<in> set cs \<and> c \<noteq> 0 \<and> \<not> is_image_embedder k \<longrightarrow>
            fst (ProgrammaticPipelineRunner_run ext r w) =
              Inl (CellmapsPipelineError (stage_label k @ '' failed'')))"
proof -
  obtain res w' where run: "ProgrammaticPipelineRunner_run ext r w = (res, w')"
    by (cases "ProgrammaticPipelineRunner_run ext r w")
  from assms run have cs: "calls w' = calls w @ cs" by simp
  from trace_ok_run[OF run] show ?thesis
  proof
    assume "res = Inr (PyInt 0) \<and> trace_ok None w w'"
    then have "res = Inr (PyInt 0)" "zero_codes cs"
      using cs by (auto simp: trace_ok_def)
    then show ?thesis using run by (auto simp: zero_codes_def list_all_iff)
  next
    assume "\<exists>e. res = Inl e \<and> trace_ok (Some e) w w'"
    then obtain e pre k c where e: "res = Inl e" "cs = pre @ [(k, c)]" "zero_codes pre" "c \<noteq> 0"
      "e = failure_of k"
      using cs by (auto simp: trace_ok_def)
    have nz: "\<not> zero_codes cs" using e(2,4) by (simp add: zero_codes_def)
    have "k' = k" if "(k', c') \<in> set cs" "c' \<noteq> 0" for k' c'
    proof -
      from that(1) obtain xs ys where "cs = xs @ (k', c') # ys" by (auto simp: in_set_conv_decomp)
      with zero_codes_snoc_nonzero[OF e(3,4), of k xs k' c' ys] e(2) that(2) show ?thesis by simp
    qed
    then show ?thesis using nz e(1,5) run by (auto simp: failure_of_def)
  qed
qed

text \<open>
  Claim C3. If a stage's \<^verbatim>\<open>run()\<close> returns a nonzero code, no worker at all is invoked
  after it: the failing invocation is the last one of the run. This holds for every
  stage, the per-fold ones included.
\<close>

theorem short_circuit:
  assumes "calls (snd (ProgrammaticPipelineRunner_run ext r w)) = calls w @ pre @ (k, c) # post"
    and "c \<noteq> 0"
  shows "post = []"
proof -
  obtain res w' where run: "ProgrammaticPipelineRunner_run ext r w = (res, w')"
    by (cases "ProgrammaticPipelineRunner_run ext r w")
  from assms run have cs: "calls w' = calls w @ pre @ (k, c) # post" by simp
  from trace_ok_run[OF run] show ?thesis
  proof
    assume "res = Inr (PyInt 0) \<and> trace_ok None w w'"
    then have "zero_codes (pre @ (k, c) # post)" using cs by (auto simp: trace_ok_def)
    then show ?thesis using assms(2) by (simp add: zero_codes_def)
  next
    assume "\<exists>e. res = Inl e \<and> trace_ok (Some e) w w'"
    then obtain p1 k1 c1 where "pre @ (k, c) # post = p1 @ [(k1, c1)]" "zero_codes p1" "c1 \<noteq> 0"
      using cs by (auto simp: trace_ok_def)
    with zero_codes_snoc_nonzero[of p1 c1 k1 pre k c post] assms(2) show ?thesis by simp
  qed
qed

lemmas run_defs = ProgrammaticPipelineRunner_run_def download_images_def download_ppi_def
  embed_ppi_def embed_image_def coembed_def hierarchy_def invoke_def isdir_def warn_def
  log_error_def

text \<open>
  The claim C1 as stated fails where a stage returns a nonzero code: with every worker
  returning 5 the image download is invoked, and the runner raises instead of returning 5.
\<close>

theorem nonzero_code_not_returned:
  "ProgrammaticPipelineRunner_run (all_return 5) (example_programmatic [1]) empty_world =
     (Inl (CellmapsPipelineError ''Image download failed''),
      empty_world\<lparr>calls :=
        [(CellmapsImageDownloader ''/out/1.image_download'' MultiProcessImageDownloader, 5)]\<rparr>)"
  by (simp add: run_defs all_return_def example_programmatic_def empty_world_def)

lemma coembed_fail_run:
  "ProgrammaticPipelineRunner_run (coembed_fails ''/out/3.coembedding_fold1'' 5)
     (example_programmatic [1, 2]) empty_world =
     (Inl (CellmapsPipelineError ''Coembed failed''),
      empty_world\<lparr>calls :=
        [(CellmapsImageDownloader ''/out/1.image_download'' MultiProcessImageDownloader, 0),
         (CellmapsPPIDownloader ''/out/1.ppi_download'', 0),
         (CellMapsPPIEmbedder ''/out/2.ppi_embedding'' ''/out/1.ppi_download'', 0),
         (CellmapsImageEmbedder ''/out/2.image_embedding_fold1'' ''/out/1.image_download''
            (DensenetEmbeddingGenerator ''/out/1.image_download'' ''/out/2.image_embedding_fold1'' 1), 0),
         (CellmapsImageEmbedder ''/out/2.image_embedding_fold2'' ''/out/1.image_download''
            (DensenetEmbeddingGenerator ''/out/1.image_download'' ''/out/2.image_embedding_fold2'' 2), 0),
         (CellmapsCoEmbedder ''/out/3.coembedding_fold1''
            [''/out/2.image_embedding_fold1'', ''/out/2.ppi_embedding'']
            (MuseCoEmbeddingGenerator ''/out/3.coembedding_fold1'' ''/out/2.ppi_embedding''
               ''/out/2.image_embedding_fold1''), 5)],
        logged := [''Coembedding /out/3.coembedding_fold1using /out/2.image_embedding_fold1 had non zero exit code of: 5'']\<rparr>)"
  by (simp add: run_defs coembed_fails_def example_programmatic_def empty_world_def
      str_int_1 str_int_2 str_int_def str_nat.simps digit_char_def)

lemma all_zero_run:
  "ProgrammaticPipelineRunner_run (all_return 0) (example_programmatic [1]) empty_world =
     (Inr (PyInt 0),
      empty_world\<lparr>calls :=
        [(CellmapsImageDownloader ''/out/1.image_download'' MultiProcessImageDownloader, 0),
         (CellmapsPPIDownloader ''/out/1.ppi_download'', 0),
         (CellMapsPPIEmbedder ''/out/2.ppi_embedding'' ''/out/1.ppi_download'', 0),
         (CellmapsImageEmbedder ''/out/2.image_embedding_fold1'' ''/out/1.image_download''
            (DensenetEmbeddingGenerator ''/out/1.image_download'' ''/out/2.image_embedding_fold1'' 1), 0),
         (CellmapsCoEmbedder ''/out/3.coembedding_fold1''
            [''/out/2.image_embedding_fold1'', ''/out/2.ppi_embedding'']
            (MuseCoEmbeddingGenerator ''/out/3.coembedding_fold1'' ''/out/2.ppi_embedding''
               ''/out/2.image_embedding_fold1''), 0),
         (CellmapsGenerateHierarchy ''/out/4.hierarchy'' [''/out/3.coembedding_fold1''], 0)]\<rparr>)"
  by (simp add: run_defs all_return_def example_programmatic_def empty_world_def str_int_1)

lemma warn_warn: "warn m (w\<lparr>warns := warns w @ ms\<rparr>) = w\<lparr>warns := warns w @ ms @ [m]\<rparr>"
  by (simp add: warn_def)

lemma isdir_warns [simp]: "isdir p (w\<lparr>warns := ms\<rparr>) = isdir p w"
  by (simp add: isdir_def)

lemma embed_image_loop_skips:
  "list_all (\<lambda>t. isdir (fst (snd t)) w) ts \<Longrightarrow>
   embed_image_loop ext r ts (w\<lparr>warns := warns w @ ms\<rparr>) =
     (Inr 0, w\<lparr>warns := warns w @ ms @ map image_embed_notice ts\<rparr>)"
proof (induction ts arbitrary: ms)
  case Nil
  then show ?case by simp
next
  case (Cons t ts)
  then have "list_all (\<lambda>t. isdir (fst (snd t)) w) ts" and "isdir (fst (snd t)) w" by simp_all
  with Cons.IH[of "ms @ [image_embed_notice t]"] show ?case
    by (simp add: warn_warn image_embed_notice_def)
qed

lemma coembed_loop_skips:
  "list_all (\<lambda>t. isdir (snd (snd t)) w) ts \<Longrightarrow>
   coembed_loop ext r ts (w\<lparr>warns := warns w @ ms\<rparr>) =
     (0, w\<lparr>warns := warns w @ ms @ map coembed_notice ts\<rparr>)"
proof (induction ts arbitrary: ms)
  case Nil
  then show ?case by simp
next
  case (Cons t ts)
  then have "list_all (\<lambda>t. isdir (snd (snd t)) w) ts" and "isdir (snd (snd t)) w" by simp_all
  with Cons.IH[of "ms @ [coembed_notice t]"] show ?case
    by (simp add: warn_warn coembed_notice_def)
qed

lemma populated_run:
  assumes "populated r w"
  shows "ProgrammaticPipelineRunner_run ext r w =
           (Inr (PyInt 0), w\<lparr>warns := warns w @ skip_notices r\<rparr>)"
proof -
  let ?ts = "p_image_coembed_tuples r"
  let ?m1 = "''Found image dir, assuming we are good. skipping''"
  let ?m2 = "''Found ppi dir, assuming we are good. skipping''"
  let ?m3 = "''Found ppi embedding dir, assuming we are good. skipping''"
  let ?m6 = "''Found hierarchy dir, assuming we are good. skipping''"
  define w1 where "w1 = w\<lparr>warns := warns w @ [?m1]\<rparr>"
  define w2 where "w2 = w\<lparr>warns := warns w @ [?m1, ?m2]\<rparr>"
  define w3 where "w3 = w\<lparr>warns := warns w @ [?m1, ?m2, ?m3]\<rparr>"
  define w4 where "w4 = w\<lparr>warns := warns w @ [?m1, ?m2, ?m3] @ map image_embed_notice ?ts\<rparr>"
  define w5 where "w5 = w\<lparr>warns := warns w @ ([?m1, ?m2, ?m3] @ map image_embed_notice ?ts) @
                 map coembed_notice ?ts\<rparr>"
  define w6 where "w6 = w\<lparr>warns := warns w @ (([?m1, ?m2, ?m3] @ map image_embed_notice ?ts) @
                 map coembed_notice ?ts) @ [?m6]\<rparr>"
  from assms have d: "isdir (p_image_dir r) w" "isdir (p_ppi_dir r) w" "isdir (p_ppi_embed_dir r) w"
    "isdir (p_hierarchy_dir r) w"
    and l1: "list_all (\<lambda>t. isdir (fst (snd t)) w) ?ts"
    and l2: "list_all (\<lambda>t. isdir (snd (snd t)) w) ?ts"
    by (simp_all add: populated_def list_all_iff)
  have s1: "download_images ext r w = (0, w1)"
    using d(1) by (simp add: download_images_def warn_def w1_def)
  have s2: "download_ppi ext r w1 = (0, w2)"
    using d(2) by (simp add: download_ppi_def warn_warn w1_def w2_def)
  have s3: "embed_ppi ext r w2 = (0, w3)"
    using d(3) by (simp add: embed_ppi_def warn_warn w2_def w3_def)
  have s4: "embed_image ext r w3 = (Inr 0, w4)"
    unfolding embed_image_def w3_def w4_def by (rule embed_image_loop_skips[OF l1])
  have s5: "coembed ext r w4 = (0, w5)"
    unfolding coembed_def w4_def w5_def by (rule coembed_loop_skips[OF l2])
  have s6: "hierarchy ext r w5 = (0, w6)"
    using d(4) unfolding w5_def w6_def by (simp add: hierarchy_def warn_warn)
  have "ProgrammaticPipelineRunner_run ext r w = (Inr (PyInt 0), w6)"
    unfolding ProgrammaticPipelineRunner_run_def
    by (simp only: s1 s2 s3 s4 s5 s6 prod.case sum.case simp_thms if_False)
  then show ?thesis by (simp add: w6_def skip_notices_def)
qed

text \<open>
  Claim C4. A stage whose output directory exists is not run: the method returns 0
  (for a per-fold stage, the loop goes on to the next fold) and only a warning is added.
  When every output directory exists, the whole run invokes no worker, returns 0 and
  changes nothing but the list of warnings.
\<close>

theorem existing_output_skips:
  "(isdir (p_image_dir r) w \<longrightarrow>
      download_images ext r w = (0, warn ''Found image dir, assuming we are good. skipping'' w)) \<and>
   (isdir (p_ppi_dir r) w \<longrightarrow>
      download_ppi ext r w = (0, warn ''Found ppi dir, assuming we are good. skipping'' w)) \<and>
   (isdir (p_ppi_embed_dir r) w \<longrightarrow>
      embed_ppi ext r w =
        (0, warn ''Found ppi embedding dir, assuming we are good. skipping'' w)) \<and>
   (isdir (fst (snd t)) w \<longrightarrow>
      embed_image_loop ext r (t # ts) w = embed_image_loop ext r ts (warn (image_embed_notice t) w)) \<and>
   (isdir (snd (snd t)) w \<longrightarrow>
      coembed_loop ext r (t # ts) w = coembed_loop ext r ts (warn (coembed_notice t) w)) \<and>
   (isdir (p_hierarchy_dir r) w \<longrightarrow>
      hierarchy ext r w = (0, warn ''Found hierarchy dir, assuming we are good. skipping'' w)) \<and>
   (populated r w \<longrightarrow>
      ProgrammaticPipelineRunner_run ext r w =
        (Inr (PyInt 0), w\<lparr>warns := warns w @ skip_notices r\<rparr>))"
  using populated_run[of r w ext]
  by (simp add: download_images_def download_ppi_def embed_ppi_def hierarchy_def
      image_embed_notice_def coembed_notice_def)

text \<open>
  The theorem at a populated output root: the workers would return 7 if they were run,
  and the run returns 0 with eight warnings.
\<close>

theorem existing_output_skips_witness:
  "populated (example_programmatic [1, 2]) populated_world \<and>
   ProgrammaticPipelineRunner_run (all_return 7) (example_programmatic [1, 2]) populated_world =
     (Inr (PyInt 0),
      populated_world\<lparr>warns :=
        [''Found image dir, assuming we are good. skipping'',
         ''Found ppi dir, assuming we are good. skipping'',
         ''Found ppi embedding dir, assuming we are good. skipping'',
         ''Found image_embedding dir/out/2.image_embedding_fold1, assuming we are good. skipping'',
         ''Found image_embedding dir/out/2.image_embedding_fold2, assuming we are good. skipping'',
         ''Found coembedding dir/out/3.coembedding_fold1, assuming we are good. skipping'',
         ''Found coembedding dir/out/3.coembedding_fold2, assuming we are good. skipping'',
         ''Found hierarchy dir, assuming we are good. skipping'']\<rparr>)"
proof -
  have p: "populated (example_programmatic [1, 2]) populated_world"
    by (simp add: populated_def example_programmatic_def populated_world_def empty_world_def
        isdir_def str_int_1 str_int_2)
  have n: "skip_notices (example_programmatic [1, 2]) =
        [''Found image dir, assuming we are good. skipping'',
         ''Found ppi dir, assuming we are good. skipping'',
         ''Found ppi embedding dir, assuming we are good. skipping'',
         ''Found image_embedding dir/out/2.image_embedding_fold1, assuming we are good. skipping'',
         ''Found image_embedding dir/out/2.image_embedding_fold2, assuming we are good. skipping'',
         ''Found coembedding dir/out/3.coembedding_fold1, assuming we are good. skipping'',
         ''Found coembedding dir/out/3.coembedding_fold2, assuming we are good. skipping'',
         ''Found hierarchy dir, assuming we are good. skipping'']"
    by (simp add: skip_notices_def example_programmatic_def image_embed_notice_def
        coembed_notice_def str_int_1 str_int_2)
  have w: "warns populated_world = []" by (simp add: populated_world_def empty_world_def)
  from existing_output_skips[of "example_programmatic [1, 2]" populated_world "all_return 7"] p
  have "ProgrammaticPipelineRunner_run (all_return 7) (example_programmatic [1, 2]) populated_world =
        (Inr (PyInt 0), populated_world\<lparr>warns := warns populated_world @
           skip_notices (example_programmatic [1, 2])\<rparr>)"
    by blast
  then show ?thesis using p by (simp only: n w append_Nil simp_thms)
qed

text \<open>
  The result theorem at two runs: all workers return 0 (fold 1), and the co-embedding of
  fold 1 returns 5 (folds 1 and 2).
\<close>

theorem in_process_result_witness:
  "zero_codes
     [(CellmapsImageDownloader ''/out/1.image_download'' MultiProcessImageDownloader, 0),
      (CellmapsPPIDownloader ''/out/1.ppi_download'', 0),
      (CellMapsPPIEmbedder ''/out/2.ppi_embedding'' ''/out/1.ppi_download'', 0),
      (CellmapsImageEmbedder ''/out/2.image_embedding_fold1'' ''/out/1.image_download''
         (DensenetEmbeddingGenerator ''/out/1.image_download'' ''/out/2.image_embedding_fold1'' 1), 0),
      (CellmapsCoEmbedder ''/out/3.coembedding_fold1''
         [''/out/2.image_embedding_fold1'', ''/out/2.ppi_embedding'']
         (MuseCoEmbeddingGenerator ''/out/3.coembedding_fold1'' ''/out/2.ppi_embedding''
            ''/out/2.image_embedding_fold1''), 0),
      (CellmapsGenerateHierarchy ''/out/4.hierarchy'' [''/out/3.coembedding_fold1''], 0)] \<and>
   fst (ProgrammaticPipelineRunner_run (all_return 0) (example_programmatic [1]) empty_world) =
     Inr (PyInt 0) \<and>
   (CellmapsCoEmbedder ''/out/3.coembedding_fold1''
      [''/out/2.image_embedding_fold1'', ''/out/2.ppi_embedding'']
      (MuseCoEmbeddingGenerator ''/out/3.coembedding_fold1'' ''/out/2.ppi_embedding''
         ''/out/2.image_embedding_fold1''), 5)
     \<in> set (calls (snd (ProgrammaticPipelineRunner_run (coembed_fails ''/out/3.coembedding_fold1'' 5)
                (example_programmatic [1, 2]) empty_world))) \<and>
   fst (ProgrammaticPipelineRunner_run (coembed_fails ''/out/3.coembedding_fold1'' 5)
          (example_programmatic [1, 2]) empty_world) =
     Inl (CellmapsPipelineError ''Coembed failed'')"
proof -
  let ?cs = "[(CellmapsImageDownloader ''/out/1.image_download'' MultiProcessImageDownloader, 0),
      (CellmapsPPIDownloader ''/out/1.ppi_download'', 0),
      (CellMapsPPIEmbedder ''/out/2.ppi_embedding'' ''/out/1.ppi_download'', 0),
      (CellmapsImageEmbedder ''/out/2.image_embedding_fold1'' ''/out/1.image_download''
         (DensenetEmbeddingGenerator ''/out/1.image_download'' ''/out/2.image_embedding_fold1'' 1), 0),
      (CellmapsCoEmbedder ''/out/3.coembedding_fold1''
         [''/out/2.image_embedding_fold1'', ''/out/2.ppi_embedding'']
         (MuseCoEmbeddingGenerator ''/out/3.coembedding_fold1'' ''/out/2.ppi_embedding''
            ''/out/2.image_embedding_fold1''), 0),
      (CellmapsGenerateHierarchy ''/out/4.hierarchy'' [''/out/3.coembedding_fold1''], 0)]"
  let ?k = "CellmapsCoEmbedder ''/out/3.coembedding_fold1''
      [''/out/2.image_embedding_fold1'', ''/out/2.ppi_embedding'']
      (MuseCoEmbeddingGenerator ''/out/3.coembedding_fold1'' ''/out/2.ppi_embedding''
         ''/out/2.image_embedding_fold1'')"
  let ?run2 = "ProgrammaticPipelineRunner_run (coembed_fails ''/out/3.coembedding_fold1'' 5)
                (example_programmatic [1, 2]) empty_world"
  have z: "zero_codes ?cs" by (simp add: zero_codes_def)
  have c1: "calls (snd (ProgrammaticPipelineRunner_run (all_return 0) (example_programmatic [1])
               empty_world)) = calls empty_world @ ?cs"
    unfolding all_zero_run by (simp add: empty_world_def)
  have r1: "fst (ProgrammaticPipelineRunner_run (all_return 0) (example_programmatic [1]) empty_world) =
     Inr (PyInt 0)"
    using in_process_result[OF c1] z by blast
  have c2: "calls (snd ?run2) = calls empty_world @ calls (snd ?run2)"
    by (simp add: empty_world_def)
  have m: "(?k, 5) \<in> set (calls (snd ?run2))"
    unfolding coembed_fail_run by simp
  have l: "stage_label ?k @ '' failed'' = ''Coembed failed''" "\<not> is_image_embedder ?k"
    by (simp_all add: stage_label_def is_image_embedder_def)
  have r2: "fst ?run2 = Inl (CellmapsPipelineError (stage_label ?k @ '' failed''))"
    using in_process_result[OF c2, THEN conjunct2, rule_format, of ?k 5] m l(2) by simp
  show ?thesis using z r1 m r2 unfolding l(1) by blast
qed

text \<open>
  The short circuit at the run in which the co-embedding of fold 1 returns 5: both image
  embeddings ran before it, and neither the co-embedding of fold 2 nor the hierarchy
  after it.
\<close>

theorem short_circuit_witness:
  "calls (snd (ProgrammaticPipelineRunner_run (coembed_fails ''/out/3.coembedding_fold1'' 5)
                (example_programmatic [1, 2]) empty_world)) =
     calls empty_world @
     [(CellmapsImageDownloader ''/out/1.image_download'' MultiProcessImageDownloader, 0),
      (CellmapsPPIDownloader ''/out/1.ppi_download'', 0),
      (CellMapsPPIEmbedder ''/out/2.ppi_embedding'' ''/out/1.ppi_download'', 0),
      (CellmapsImageEmbedder ''/out/2.image_embedding_fold1'' ''/out/1.image_download''
         (DensenetEmbeddingGenerator ''/out/1.image_download'' ''/out/2.image_embedding_fold1'' 1), 0),
      (CellmapsImageEmbedder ''/out/2.image_embedding_fold2'' ''/out/1.image_download''
         (DensenetEmbeddingGenerator ''/out/1.image_download'' ''/out/2.image_embedding_fold2'' 2), 0)] @
     (CellmapsCoEmbedder ''/out/3.coembedding_fold1''
        [''/out/2.image_embedding_fold1'', ''/out/2.ppi_embedding'']
        (MuseCoEmbeddingGenerator ''/out/3.coembedding_fold1'' ''/out/2.ppi_embedding''
           ''/out/2.image_embedding_fold1''), 5) # [] \<and>
   (5 :: int) \<noteq> 0 \<and> ([] :: (worker \<times> int) list) = []"
proof -
  let ?pre = "[(CellmapsImageDownloader ''/out/1.image_download'' MultiProcessImageDownloader, 0),
      (CellmapsPPIDownloader ''/out/1.ppi_download'', 0),
      (CellMapsPPIEmbedder ''/out/2.ppi_embedding'' ''/out/1.ppi_download'', 0),
      (CellmapsImageEmbedder ''/out/2.image_embedding_fold1'' ''/out/1.image_download''
         (DensenetEmbeddingGenerator ''/out/1.image_download'' ''/out/2.image_embedding_fold1'' 1), 0),
      (CellmapsImageEmbedder ''/out/2.image_embedding_fold2'' ''/out/1.image_download''
         (DensenetEmbeddingGenerator ''/out/1.image_download'' ''/out/2.image_embedding_fold2'' 2), 0)]"
  let ?k = "CellmapsCoEmbedder ''/out/3.coembedding_fold1''
      [''/out/2.image_embedding_fold1'', ''/out/2.ppi_embedding'']
      (MuseCoEmbeddingGenerator ''/out/3.coembedding_fold1'' ''/out/2.ppi_embedding''
         ''/out/2.image_embedding_fold1'')"
  have c: "calls (snd (ProgrammaticPipelineRunner_run (coembed_fails ''/out/3.coembedding_fold1'' 5)
                (example_programmatic [1, 2]) empty_world)) =
     calls empty_world @ ?pre @ (?k, 5) # []"
    unfolding coembed_fail_run by (simp add: empty_world_def)
  have n: "(5 :: int) \<noteq> 0" by simp
  from short_circuit[OF c n] c n show ?thesis by blast
qed

section \<open>The batch-scheduler runner\<close>

lemma open_w_put: "open_w f w = put_file f [] w"
  by (simp add: open_w_def put_file_def)

lemma fwrite_put: "fwrite f s (put_file f c w) = put_file f (c @ s) w"
  by (simp add: fwrite_def put_file_def)

lemma slurm_directives_put:
  "slurm_directives r f job (put_file f c w) = put_file f (c @ directives_text r job) w"
  by (simp add: slurm_directives_def write_slurm_directives_def fwrite_put directives_text_def
      Let_def split: option.splits)

lemma generate_download_images_command_ok:
  assumes "inputs_given r"
  shows "generate_download_images_command r w =
           (Inr ''imagedownloadjob.sh'',
            put_file (os_path_join (outdir r) ''imagedownloadjob.sh'')
              (directives_text r ''imagedownload'' @
               ''cellmaps_imagedownloadercmd.py '' @ s_image_dir r @ ''--provenance '' @
               the (s_provenance r) @ '' '' @ input_arg_text r @ ''\<newline>'' @
               ''exit $?\<newline>'') w)"
  using assms
  by (auto simp: generate_download_images_command_def inputs_given_def input_arg_text_def
      open_w_put slurm_directives_put fwrite_put Let_def split: option.splits)

lemma generate_download_ppi_command_ok:
  assumes "inputs_given r"
  shows "generate_download_ppi_command r w =
           (Inr ''ppidownloadjob.sh'',
            put_file (os_path_join (outdir r) ''ppidownloadjob.sh'')
              (directives_text r ''ppidownload'' @
               ''cellmaps_ppidownloadercmd.py '' @ s_ppi_dir r @ '' --provenance '' @
               the (s_provenance r) @ '' '' @ input_arg_text r @ ''\<newline>'' @
               ''exit $?\<newline>'') w)"
  using assms
  by (auto simp: generate_download_ppi_command_def inputs_given_def input_arg_text_def
      open_w_put slurm_directives_put fwrite_put Let_def split: option.splits)

lemma generate_embed_ppi_command_ok:
  "generate_embed_ppi_command r w =
     (Inr ''ppiembedjob.sh'',
      put_file (os_path_join (outdir r) ''ppiembedjob.sh'')
        (directives_text r ''ppiembed'' @
         ''cellmaps_ppi_embeddingcmd.py '' @ s_ppi_embed_dir r @ '' --inputdir '' @ s_ppi_dir r @
         '' '' @ fake_flag r ''--fake_embedder'' @ '' -vvvv\<newline>'' @ ''exit $?\<newline>'') w)"
  by (simp add: generate_embed_ppi_command_def open_w_put slurm_directives_put fwrite_put
      Let_def fake_flag_def)

lemma generate_embed_image_command_ok:
  assumes "py_index (s_image_coembed_tuples r) (k - 1) = Inr t"
  shows "generate_embed_image_command r k w =
     (Inr (''imageembedjob'' @ str_int k @ ''.sh''),
      put_file (os_path_join (outdir r) (''imageembedjob'' @ str_int k @ ''.sh''))
        (directives_text r (''imageembed'' @ str_int k) @
         ''cellmaps_image_embeddingcmd.py '' @ fst (snd t) @ '' --fold '' @ str_int k @
         '' --inputdir '' @ s_image_dir r @ '' '' @ fake_flag r ''--fake_embedder'' @
         '' -vvvv\<newline>'' @ ''exit $?\<newline>'') w)"
  using assms
  by (simp add: generate_embed_image_command_def open_w_put slurm_directives_put fwrite_put
      Let_def fake_flag_def)

lemma generate_embed_image_command_err:
  assumes "py_index (s_image_coembed_tuples r) (k - 1) = Inl e"
  shows "generate_embed_image_command r k w =
     (Inl e,
      put_file (os_path_join (outdir r) (''imageembedjob'' @ str_int k @ ''.sh''))
        (directives_text r (''imageembed'' @ str_int k)) w)"
  using assms
  by (simp add: generate_embed_image_command_def open_w_put slurm_directives_put Let_def)

lemma generate_coembed_command_ok:
  assumes "py_index (s_image_coembed_tuples r) (k - 1) = Inr t"
  shows "generate_coembed_command r k w =
     (Inr (''coembeddingjob'' @ str_int k @ ''.sh''),
      put_file (os_path_join (outdir r) (''coembeddingjob'' @ str_int k @ ''.sh''))
        (directives_text r (''coembedding'' @ str_int k) @
         ''cellmaps_coembeddingcmd.py '' @ snd (snd t) @ '' --ppi_embeddingdir '' @
         s_ppi_embed_dir r @ '' --image_embeddingdir '' @ fst (snd t) @ '' '' @
         fake_flag r ''--fake_embedding'' @ '' -vvvv\<newline>'' @ ''exit $?\<newline>'') w)"
  using assms
  by (simp add: generate_coembed_command_def open_w_put slurm_directives_put fwrite_put
      Let_def fake_flag_def)

lemma generate_coembed_command_err:
  assumes "py_index (s_image_coembed_tuples r) (k - 1) = Inl e"
  shows "generate_coembed_command r k w =
     (Inl e,
      put_file (os_path_join (outdir r) (''coembeddingjob'' @ str_int k @ ''.sh''))
        (directives_text r (''coembedding'' @ str_int k)) w)"
  using assms
  by (simp add: generate_coembed_command_def open_w_put slurm_directives_put Let_def)

lemma foldl_fwrite_put:
  "foldl (\<lambda>w t. fwrite f (g t) w) (put_file f c w) ts = put_file f (c @ concat (map g ts)) w"
  by (induction ts arbitrary: c) (simp_all add: fwrite_put)

lemma generate_hierarchy_command_ok:
  "generate_hierarchy_command r w =
     (Inr ''hierarchyjob.sh'',
      put_file (os_path_join (outdir r) ''hierarchyjob.sh'')
        (directives_text r ''hierarchy'' @
         ''cellmaps_generate_hierarchycmd.py '' @ s_hierarchy_dir r @ '' --coembedding_dirs '' @
         concat (map (\<lambda>t. snd (snd t) @ '' '') (s_image_coembed_tuples r)) @
         ''-vvvv\<newline>'' @ ''exit $?\<newline>'') w)"
  by (simp add: generate_hierarchy_command_def open_w_put slurm_directives_put fwrite_put
      foldl_fwrite_put Let_def)

lemma os_path_join_eq_iff:
  "\<not> starts_with_sep b \<Longrightarrow> \<not> starts_with_sep c \<Longrightarrow> (os_path_join a b = os_path_join a c) = (b = c)"
  using os_path_join_inj by blast

lemma fwrite_put_other:
  "f \<noteq> g \<Longrightarrow> fwrite f s (put_file g c w) = put_file g c (fwrite f s w)"
  by (simp add: fwrite_def put_file_def fun_upd_twist)

lemma put_file_sel:
  "opened (put_file g c w) = opened w @ [g]"
  "files (put_file g c w) f = (if f = g then Some c else files w f)"
  "calls (put_file g c w) = calls w"
  "dirs (put_file g c w) = dirs w"
  "finish_json (put_file g c w) = finish_json w"
  by (simp_all add: put_file_def)

lemma py_index_pair:
  "py_index [t1, t2] 0 = Inr t1" "py_index [t1, t2] 1 = Inr t2"
  by (simp_all add: py_index_def)

lemma slurm_run_12:
  assumes t: "s_image_coembed_tuples r = [t1, t2]" "fst t1 = 1" "fst t2 = 2"
    and i: "inputs_given r"
  shows "SLURMPipelineRunner_run r w =
    (Inr PyNone,
     put_file (os_path_join (outdir r) ''hierarchyjob.sh'')
        (directives_text r ''hierarchy'' @
         ''cellmaps_generate_hierarchycmd.py '' @ s_hierarchy_dir r @ '' --coembedding_dirs '' @
         snd (snd t1) @ '' '' @ snd (snd t2) @ '' '' @
         ''-vvvv\<newline>'' @ ''exit $?\<newline>'')
    (put_file (os_path_join (outdir r) ''coembeddingjob2.sh'')
        (directives_text r ''coembedding2'' @
         ''cellmaps_coembeddingcmd.py '' @ snd (snd t2) @ '' --ppi_embeddingdir '' @
         s_ppi_embed_dir r @ '' --image_embeddingdir '' @ fst (snd t2) @ '' '' @
         fake_flag r ''--fake_embedding'' @ '' -vvvv\<newline>'' @ ''exit $?\<newline>'')
    (put_file (os_path_join (outdir r) ''imageembedjob2.sh'')
        (directives_text r ''imageembed2'' @
         ''cellmaps_image_embeddingcmd.py '' @ fst (snd t2) @ '' --fold 2'' @
         '' --inputdir '' @ s_image_dir r @ '' '' @ fake_flag r ''--fake_embedder'' @
         '' -vvvv\<newline>'' @ ''exit $?\<newline>'')
    (put_file (os_path_join (outdir r) ''coembeddingjob1.sh'')
        (directives_text r ''coembedding1'' @
         ''cellmaps_coembeddingcmd.py '' @ snd (snd t1) @ '' --ppi_embeddingdir '' @
         s_ppi_embed_dir r @ '' --image_embeddingdir '' @ fst (snd t1) @ '' '' @
         fake_flag r ''--fake_embedding'' @ '' -vvvv\<newline>'' @ ''exit $?\<newline>'')
    (put_file (os_path_join (outdir r) ''imageembedjob1.sh'')
        (directives_text r ''imageembed1'' @
         ''cellmaps_image_embeddingcmd.py '' @ fst (snd t1) @ '' --fold 1'' @
         '' --inputdir '' @ s_image_dir r @ '' '' @ fake_flag r ''--fake_embedder'' @
         '' -vvvv\<newline>'' @ ''exit $?\<newline>'')
    (put_file (os_path_join (outdir r) ''ppiembedjob.sh'')
        (directives_text r ''ppiembed'' @
         ''cellmaps_ppi_embeddingcmd.py '' @ s_ppi_embed_dir r @ '' --inputdir '' @ s_ppi_dir r @
         '' '' @ fake_flag r ''--fake_embedder'' @ '' -vvvv\<newline>'' @ ''exit $?\<newline>'')
    (put_file (os_path_join (outdir r) ''ppidownloadjob.sh'')
        (directives_text r ''ppidownload'' @
               ''cellmaps_ppidownloadercmd.py '' @ s_ppi_dir r @ '' --provenance '' @
               the (s_provenance r) @ '' '' @ input_arg_text r @ ''\<newline>'' @
               ''exit $?\<newline>'')
    (put_file (os_path_join (outdir r) ''imagedownloadjob.sh'')
        (directives_text r ''imagedownload'' @
               ''cellmaps_imagedownloadercmd.py '' @ s_image_dir r @ ''--provenance '' @
               the (s_provenance r) @ '' '' @ input_arg_text r @ ''\<newline>'' @
               ''exit $?\<newline>'')
    (put_file (os_path_join (outdir r) ''slurm_cellmaps_job.sh'')
       (''#! /bin/bash\<newline>\<newline>'' @
        ''# image download no dependencies\<newline>'' @
        ''image_download_job=$(sbatch imagedownloadjob.sh)\<newline>\<newline>'' @
        ''# ppi download no dependencies\<newline>'' @
        ''ppi_download_job=$(sbatch ppidownloadjob.sh)\<newline>\<newline>'' @
        ''# ppi embed\<newline>'' @
        ''ppi_embed_job=$(sbatch --dependency=afterok:$ppi_download_job ppiembedjob.sh)\<newline>\<newline>'' @
        ''# image embed\<newline>'' @
        ''image_embed_job1=$(sbatch --dependency=afterok:$image_download_job imageembedjob1.sh)\<newline>\<newline>'' @
        ''# fold1 co-embedding\<newline>'' @
        coembed_job_name t1 @ ''=$(sbatch --dependency=afterok:$image_embed_job1 coembeddingjob1.sh'' @
        ''# image embed\<newline>'' @
        ''image_embed_job2=$(sbatch --dependency=afterok:$image_download_job imageembedjob2.sh)\<newline>\<newline>'' @
        ''# fold2 co-embedding\<newline>'' @
        coembed_job_name t2 @ ''=$(sbatch --dependency=afterok:$image_embed_job2 coembeddingjob2.sh'' @
        ''# hierarchy\<newline>'' @
        ''hierarchy_job=$(sbatch --dependency=afterok:$ppi_embed_job:$'' @ coembed_job_name t1 @
        '':$'' @ coembed_job_name t2 @ '' hierarchyjob.sh)\<newline>\<newline>'') w)))))))))"
  apply (simp only: SLURMPipelineRunner_run_def Let_def open_w_put fwrite_put
      generate_download_images_command_ok[OF i] prod.case sum.case)
  apply (simp add: fwrite_put fwrite_put_other os_path_join_eq_iff starts_with_sep_def
      generate_download_ppi_command_ok[OF i] generate_embed_ppi_command_ok
      generate_hierarchy_command_ok t str_int_1 str_int_2 py_index_pair
      generate_embed_image_command_ok[where t=t1] generate_embed_image_command_ok[where t=t2]
      generate_coembed_command_ok[where t=t1] generate_coembed_command_ok[where t=t2]
      coembed_job_name_def)
  done

lemma files_only_refl: "files_only w w"
  by (simp add: files_only_def)

lemma files_only_trans: "files_only w w1 \<Longrightarrow> files_only w1 w2 \<Longrightarrow> files_only w w2"
  by (simp add: files_only_def)

lemma files_only_fwrite: "files_only w (fwrite f s w')= files_only w w'"
  by (simp add: files_only_def fwrite_def)

lemma files_only_fwrite1: "files_only (fwrite f s w) w' = files_only w w'"
  by (simp add: files_only_def fwrite_def)

lemma files_only_put: "files_only w (put_file f s w') = files_only w w'"
  by (simp add: files_only_def put_file_def)

lemma files_only_open: "files_only w (open_w f w') = files_only w w'"
  by (simp add: files_only_def open_w_def)

lemma files_only_directives: "files_only w (slurm_directives r f j w') = files_only w w'"
  by (simp add: slurm_directives_def write_slurm_directives_def Let_def files_only_fwrite
      split: option.splits)

lemma files_only_download_images: "files_only w (snd (generate_download_images_command r w))"
  by (simp add: generate_download_images_command_def Let_def files_only_fwrite files_only_open
      files_only_directives files_only_refl split: option.splits sum.splits prod.splits)

lemma files_only_download_ppi: "files_only w (snd (generate_download_ppi_command r w))"
  by (simp add: generate_download_ppi_command_def Let_def files_only_fwrite files_only_open
      files_only_directives files_only_refl split: option.splits sum.splits prod.splits)

lemma files_only_embed_ppi: "files_only w (snd (generate_embed_ppi_command r w))"
  by (simp add: generate_embed_ppi_command_ok files_only_put files_only_refl)

lemma files_only_hierarchy: "files_only w (snd (generate_hierarchy_command r w))"
  by (simp add: generate_hierarchy_command_ok files_only_put files_only_refl)

lemma files_only_embed_image: "files_only w (snd (generate_embed_image_command r k w))"
  by (cases "py_index (s_image_coembed_tuples r) (k - 1)")
     (simp_all add: generate_embed_image_command_ok generate_embed_image_command_err
        files_only_put files_only_refl)

lemma files_only_coembed: "files_only w (snd (generate_coembed_command r k w))"
  by (cases "py_index (s_image_coembed_tuples r) (k - 1)")
     (simp_all add: generate_coembed_command_ok generate_coembed_command_err
        files_only_put files_only_refl)

lemma files_only_loop: "files_only w (snd (slurm_fold_loop r f ts names w))"
proof (induction ts arbitrary: names w)
  case Nil
  then show ?case by (simp add: files_only_refl)
next
  case (Cons t ts)
  let ?w1 = "fwrite f ''# image embed\<newline>'' w"
  obtain r1 w2 where g1: "generate_embed_image_command r (fst t) ?w1 = (r1, w2)"
    by (cases "generate_embed_image_command r (fst t) ?w1")
  have f2: "files_only w w2"
    using files_only_embed_image[of ?w1 r "fst t"] g1 by (simp add: files_only_fwrite1)
  show ?case
  proof (cases r1)
    case (Inl e)
    then show ?thesis using g1 f2 by simp
  next
    case (Inr script)
    let ?w4 = "fwrite f (''# fold'' @ str_int (fst t) @ '' co-embedding\<newline>'')
        (fwrite f (''image_embed_job'' @ str_int (fst t) @
                   ''=$(sbatch --dependency=afterok:$image_download_job '' @
                   script @ '')\<newline>\<newline>'') w2)"
    obtain r2 w5 where g2: "generate_coembed_command r (fst t) ?w4 = (r2, w5)"
      by (cases "generate_coembed_command r (fst t) ?w4")
    have f5: "files_only w w5"
      using files_only_coembed[of ?w4 r "fst t"] g2 f2
      by (simp add: files_only_def fwrite_def)
    show ?thesis
    proof (cases r2)
      case (Inl e)
      then show ?thesis using g1 g2 Inr f5 by (simp add: Let_def)
    next
      case i2: (Inr script2)
      let ?w6 = "fwrite f (coembed_job_name t @
                               ''=$(sbatch --dependency=afterok:$image_embed_job'' @
                               str_int (fst t) @ '' '' @ script2) w5"
      have "files_only w ?w6" using f5 by (simp add: files_only_fwrite)
      from files_only_trans[OF this Cons.IH[of ?w6]]
      show ?thesis using g1 g2 Inr i2 by (simp add: Let_def coembed_job_name_def)
    qed
  qed
qed

lemma files_only_slurm_run: "files_only w (snd (SLURMPipelineRunner_run r w))"
proof -
  let ?f = "os_path_join (outdir r) ''slurm_cellmaps_job.sh''"
  define w1 where "w1 = fwrite ?f ''# image download no dependencies\<newline>''
                 (fwrite ?f ''#! /bin/bash\<newline>\<newline>'' (open_w ?f w))"
  have f1: "files_only w w1"
    by (simp add: w1_def files_only_fwrite files_only_open files_only_refl)
  obtain r1 w2 where g1: "generate_download_images_command r w1 = (r1, w2)"
    by (cases "generate_download_images_command r w1")
  have f2: "files_only w w2"
    using files_only_trans[OF f1 files_only_download_images[of w1 r]] g1 by simp
  show ?thesis
  proof (cases r1)
    case (Inl e)
    show ?thesis
      by (simp only: SLURMPipelineRunner_run_def Let_def w1_def[symmetric] g1 Inl prod.case
          sum.case snd_conv f2)
  next
    case (Inr s1)
    define w3 where "w3 = fwrite ?f ''# ppi download no dependencies\<newline>''
                  (fwrite ?f (''image_download_job=$(sbatch '' @ s1 @ '')\<newline>\<newline>'') w2)"
    have f3: "files_only w w3" using f2 by (simp add: w3_def files_only_fwrite)
    obtain r2 w4 where g2: "generate_download_ppi_command r w3 = (r2, w4)"
      by (cases "generate_download_ppi_command r w3")
    have f4: "files_only w w4"
      using files_only_trans[OF f3 files_only_download_ppi[of w3 r]] g2 by simp
    show ?thesis
    proof (cases r2)
      case (Inl e)
      show ?thesis
        by (simp only: SLURMPipelineRunner_run_def Let_def w1_def[symmetric] w3_def[symmetric]
            g1 g2 Inr Inl prod.case sum.case snd_conv f4)
    next
      case i2: (Inr s2)
      define w5 where "w5 = fwrite ?f ''# ppi embed\<newline>''
                  (fwrite ?f (''ppi_download_job=$(sbatch '' @ s2 @ '')\<newline>\<newline>'') w4)"
      have f5: "files_only w w5" using f4 by (simp add: w5_def files_only_fwrite)
      obtain r3 w6 where g3: "generate_embed_ppi_command r w5 = (r3, w6)"
        by (cases "generate_embed_ppi_command r w5")
      have f6: "files_only w w6"
        using files_only_trans[OF f5 files_only_embed_ppi[of w5 r]] g3 by simp
      show ?thesis
      proof (cases r3)
        case (Inl e)
        show ?thesis
          by (simp only: SLURMPipelineRunner_run_def Let_def w1_def[symmetric] w3_def[symmetric]
              w5_def[symmetric] g1 g2 g3 Inr i2 Inl prod.case sum.case snd_conv f6)
      next
        case i3: (Inr s3)
        define w7 where "w7 = fwrite ?f
            (''ppi_embed_job=$(sbatch --dependency=afterok:$ppi_download_job '' @
                          s3 @ '')\<newline>\<newline>'') w6"
        have f7: "files_only w w7" using f6 by (simp add: w7_def files_only_fwrite)
        obtain r4 w8 where g4:
          "slurm_fold_loop r ?f (s_image_coembed_tuples r) [''$ppi_embed_job''] w7 = (r4, w8)"
          by (cases "slurm_fold_loop r ?f (s_image_coembed_tuples r) [''$ppi_embed_job''] w7")
        have f8: "files_only w w8"
          using files_only_trans[OF f7 files_only_loop[of w7 r ?f "s_image_coembed_tuples r"
                "[''$ppi_embed_job'']"]] g4 by simp
        show ?thesis
        proof (cases r4)
          case (Inl e)
          show ?thesis
            by (simp only: SLURMPipelineRunner_run_def Let_def w1_def[symmetric]
                w3_def[symmetric] w5_def[symmetric] w7_def[symmetric] g1 g2 g3 g4 Inr i2 i3 Inl
                prod.case sum.case snd_conv f8)
        next
          case i4: (Inr names)
          define w9 where "w9 = fwrite ?f ''# hierarchy\<newline>'' w8"
          have f9: "files_only w w9" using f8 by (simp add: w9_def files_only_fwrite)
          obtain r5 w10 where g5: "generate_hierarchy_command r w9 = (r5, w10)"
            by (cases "generate_hierarchy_command r w9")
          have f10: "files_only w w10"
            using files_only_trans[OF f9 files_only_hierarchy[of w9 r]] g5 by simp
          show ?thesis
            by (cases r5)
               (simp_all only: SLURMPipelineRunner_run_def Let_def w1_def[symmetric]
                w3_def[symmetric] w5_def[symmetric] w7_def[symmetric] w9_def[symmetric]
                g1 g2 g3 g4 g5 Inr i2 i3 i4 prod.case sum.case snd_conv f10 files_only_fwrite)
        qed
      qed
    qed
  qed
qed

section \<open>\<^verbatim>\<open>CellmapsPipeline.run\<close>\<close>

lemma new_run_eq:
  assumes "root_usable (abspath od) w"
  shows "CellmapsPipeline_new_run abspath now version (Some od) rn idd w =
     (fst (rn (started (abspath od) now idd version w)),
      write_task_finish_json (abspath od) now
        (recorded_status (fst (rn (started (abspath od) now idd version w))))
        (snd (rn (started (abspath od) now idd version w))))"
proof (cases "isdir (abspath od) w")
  case True
  then show ?thesis
    by (cases "rn (started (abspath od) now idd version w)")
       (auto simp: CellmapsPipeline_new_run_def CellmapsPipeline_init_def
          CellmapsPipeline_run_def started_def recorded_status_def Let_def split: sum.splits)
next
  case False
  with assms have "files w (abspath od) = None" by (simp add: root_usable_def)
  with False show ?thesis
    by (cases "rn (started (abspath od) now idd version w)")
       (auto simp: CellmapsPipeline_new_run_def CellmapsPipeline_init_def
          CellmapsPipeline_run_def started_def recorded_status_def makedirs_def Let_def
          split: sum.splits)
qed

lemma new_run_blocked:
  assumes "\<not> root_usable (abspath od) w"
  shows "CellmapsPipeline_new_run abspath now version (Some od) rn idd w =
           (Inl FileExistsError, w)"
  using assms
  by (auto simp: root_usable_def CellmapsPipeline_new_run_def CellmapsPipeline_init_def
      CellmapsPipeline_run_def makedirs_def)

lemma finish_json_started: "finish_json (started d now idd version w) = finish_json w"
  by (simp add: started_def write_task_start_json_def)

lemma programmatic_finish_json:
  "finish_json (snd (ProgrammaticPipelineRunner_run ext r w)) = finish_json w"
proof -
  obtain res w' where run: "ProgrammaticPipelineRunner_run ext r w = (res, w')"
    by (cases "ProgrammaticPipelineRunner_run ext r w")
  from trace_ok_run[OF run] have "finish_json w' = finish_json w"
    by (auto simp: trace_ok_def)
  then show ?thesis using run by simp
qed

lemma programmatic_result:
  assumes "fst (ProgrammaticPipelineRunner_run ext r w) = Inr v"
  shows "v = PyInt 0"
proof -
  obtain res w' where run: "ProgrammaticPipelineRunner_run ext r w = (res, w')"
    by (cases "ProgrammaticPipelineRunner_run ext r w")
  with assms have "res = Inr v" by simp
  with trace_ok_run[OF run] show ?thesis by auto
qed

lemma slurm_finish_json:
  "finish_json (snd (SLURMPipelineRunner_run r w)) = finish_json w"
  using files_only_slurm_run[of w r] by (simp add: files_only_def)

lemma slurm_result:
  "fst (SLURMPipelineRunner_run r w) = Inr v \<Longrightarrow> v = PyNone"
  by (auto simp: SLURMPipelineRunner_run_def Let_def split: prod.splits sum.splits)

lemma programmatic_99_iff:
  "(recorded_status (fst (ProgrammaticPipelineRunner_run ext r w)) = PyInt 99) =
     isl (fst (ProgrammaticPipelineRunner_run ext r w))"
  using programmatic_result[of ext r w]
  by (cases "fst (ProgrammaticPipelineRunner_run ext r w)") (auto simp: recorded_status_def)

lemma slurm_99_iff:
  "(recorded_status (fst (SLURMPipelineRunner_run s w)) = PyInt 99) =
     isl (fst (SLURMPipelineRunner_run s w))"
  using slurm_result[of s w]
  by (cases "fst (SLURMPipelineRunner_run s w)") (auto simp: recorded_status_def)

text \<open>
  Claim C2, as the code has it. When the output root is a directory or can be made one,
  a constructed pipeline's \<^verbatim>\<open>run()\<close> hands on the runner's outcome, exception or result,
  and appends exactly one finish marker to those present when the runner ended; the
  marker records 99 when the runner raised and the runner's result otherwise. Neither
  runner of the source writes a finish marker, so the run then writes exactly one, and
  with either of them the marker records 99 exactly when the runner raised. A call that
  ends before the \<^verbatim>\<open>try\<close> writes no finish marker: when \<^verbatim>\<open>os.makedirs\<close> raises, and when
  the guard on the output root does.
\<close>

theorem finish_marker_once:
  "(root_usable (abspath od) w \<longrightarrow>
      fst (CellmapsPipeline_new_run abspath now version (Some od) rn idd w) =
        fst (rn (started (abspath od) now idd version w)) \<and>
      finish_json (snd (CellmapsPipeline_new_run abspath now version (Some od) rn idd w)) =
        finish_json (snd (rn (started (abspath od) now idd version w))) @
        [(abspath od, now,
          recorded_status (fst (rn (started (abspath od) now idd version w))))] \<and>
      finish_json (snd (CellmapsPipeline_new_run abspath now version (Some od)
                          (ProgrammaticPipelineRunner_run ext r) idd w)) =
        finish_json w @
        [(abspath od, now,
          recorded_status (fst (ProgrammaticPipelineRunner_run ext r
                                  (started (abspath od) now idd version w))))] \<and>
      finish_json (snd (CellmapsPipeline_new_run abspath now version (Some od)
                          (SLURMPipelineRunner_run s) idd w)) =
        finish_json w @
        [(abspath od, now,
          recorded_status (fst (SLURMPipelineRunner_run s
                                  (started (abspath od) now idd version w))))]) \<and>
   recorded_status (Inl e) = PyInt 99 \<and> recorded_status (Inr c) = c \<and>
   (recorded_status (fst (ProgrammaticPipelineRunner_run ext r w')) = PyInt 99) =
     isl (fst (ProgrammaticPipelineRunner_run ext r w')) \<and>
   (recorded_status (fst (SLURMPipelineRunner_run s w')) = PyInt 99) =
     isl (fst (SLURMPipelineRunner_run s w')) \<and>
   (\<not> root_usable (abspath od) w \<longrightarrow>
      CellmapsPipeline_new_run abspath now version (Some od) rn idd w =
        (Inl FileExistsError, w)) \<and>
   CellmapsPipeline_run version (p\<lparr>pipeline_outdir := None\<rparr>) w =
     (Inl (CellmapsPipelineError ''outdir must be set''), w)"
proof -
  have a: "root_usable (abspath od) w \<longrightarrow>
      fst (CellmapsPipeline_new_run abspath now version (Some od) rn idd w) =
        fst (rn (started (abspath od) now idd version w)) \<and>
      finish_json (snd (CellmapsPipeline_new_run abspath now version (Some od) rn idd w)) =
        finish_json (snd (rn (started (abspath od) now idd version w))) @
        [(abspath od, now,
          recorded_status (fst (rn (started (abspath od) now idd version w))))] \<and>
      finish_json (snd (CellmapsPipeline_new_run abspath now version (Some od)
                          (ProgrammaticPipelineRunner_run ext r) idd w)) =
        finish_json w @
        [(abspath od, now,
          recorded_status (fst (ProgrammaticPipelineRunner_run ext r
                                  (started (abspath od) now idd version w))))] \<and>
      finish_json (snd (CellmapsPipeline_new_run abspath now version (Some od)
                          (SLURMPipelineRunner_run s) idd w)) =
        finish_json w @
        [(abspath od, now,
          recorded_status (fst (SLURMPipelineRunner_run s
                                  (started (abspath od) now idd version w))))]"
    by (simp add: new_run_eq write_task_finish_json_def programmatic_finish_json
        slurm_finish_json finish_json_started)
  have b: "recorded_status (Inl e) = PyInt 99 \<and> recorded_status (Inr c) = c"
    by (simp add: recorded_status_def)
  have c: "CellmapsPipeline_run version (p\<lparr>pipeline_outdir := None\<rparr>) w =
     (Inl (CellmapsPipelineError ''outdir must be set''), w)"
    by (simp add: CellmapsPipeline_run_def)
  from a b c programmatic_99_iff[of ext r w'] slurm_99_iff[of s w'] new_run_blocked[of abspath od w]
  show ?thesis by blast
qed

text \<open>
  The theorem at three runs under \<^verbatim>\<open>/out\<close>: the co-embedding of fold 1 returns 5 and the
  marker records 99; every worker returns 0 and the marker records 0; \<^verbatim>\<open>/out\<close> is a
  regular file and no marker is written.
\<close>

theorem finish_marker_once_witness:
  "root_usable ''/out'' empty_world \<and>
   fst (CellmapsPipeline_new_run (\<lambda>p. p) 0 ''0.1.0'' (Some ''/out'')
          (ProgrammaticPipelineRunner_run (coembed_fails ''/out/3.coembedding_fold1'' 5)
             (example_programmatic [1, 2])) None empty_world) =
     Inl (CellmapsPipelineError ''Coembed failed'') \<and>
   finish_json (snd (CellmapsPipeline_new_run (\<lambda>p. p) 0 ''0.1.0'' (Some ''/out'')
          (ProgrammaticPipelineRunner_run (coembed_fails ''/out/3.coembedding_fold1'' 5)
             (example_programmatic [1, 2])) None empty_world)) =
     [(''/out'', 0, PyInt 99)] \<and>
   finish_json (snd (CellmapsPipeline_new_run (\<lambda>p. p) 0 ''0.1.0'' (Some ''/out'')
          (ProgrammaticPipelineRunner_run (all_return 0) (example_programmatic [1])) None
          empty_world)) =
     [(''/out'', 0, PyInt 0)] \<and>
   \<not> root_usable ''/out'' blocked_world \<and>
   CellmapsPipeline_new_run (\<lambda>p. p) 0 ''0.1.0'' (Some ''/out'')
     (ProgrammaticPipelineRunner_run (all_return 0) (example_programmatic [1])) None
     blocked_world =
     (Inl FileExistsError, blocked_world)"
proof -
  let ?w = "started ''/out'' 0 None ''0.1.0'' empty_world"
  let ?r5 = "ProgrammaticPipelineRunner_run (coembed_fails ''/out/3.coembedding_fold1'' 5)
             (example_programmatic [1, 2])"
  let ?r0 = "ProgrammaticPipelineRunner_run (all_return 0) (example_programmatic [1])"
  have u: "root_usable ''/out'' empty_world"
    by (simp add: root_usable_def empty_world_def)
  have nu: "\<not> root_usable ''/out'' blocked_world"
    by (simp add: root_usable_def blocked_world_def empty_world_def isdir_def)
  have f5: "fst (?r5 ?w) = Inl (CellmapsPipelineError ''Coembed failed'')"
    by (simp add: run_defs coembed_fails_def example_programmatic_def empty_world_def
        started_def write_task_start_json_def str_int_1 str_int_2)
  have f0: "fst (?r0 ?w) = Inr (PyInt 0)"
    by (simp add: run_defs all_return_def example_programmatic_def empty_world_def
        started_def write_task_start_json_def str_int_1)
  have e: "finish_json empty_world = []" by (simp add: empty_world_def)
  note t5 = finish_marker_once[of "\<lambda>p. p" "''/out''" empty_world 0 "''0.1.0''" ?r5 None
      "coembed_fails ''/out/3.coembedding_fold1'' 5" "example_programmatic [1, 2]",
      THEN conjunct1, rule_format, OF u]
  note t0 = finish_marker_once[of "\<lambda>p. p" "''/out''" empty_world 0 "''0.1.0''" ?r0 None
      "all_return 0" "example_programmatic [1]", THEN conjunct1, rule_format, OF u]
  note tb = finish_marker_once[of "\<lambda>p. p" "''/out''" blocked_world 0 "''0.1.0''" ?r0 None]
  have a: "fst (CellmapsPipeline_new_run (\<lambda>p. p) 0 ''0.1.0'' (Some ''/out'') ?r5 None empty_world) =
     Inl (CellmapsPipelineError ''Coembed failed'')"
    using t5[THEN conjunct1] f5 by simp
  have b: "finish_json (snd (CellmapsPipeline_new_run (\<lambda>p. p) 0 ''0.1.0'' (Some ''/out'') ?r5 None
      empty_world)) = [(''/out'', 0, PyInt 99)]"
    using t5[THEN conjunct2, THEN conjunct2, THEN conjunct1] f5
    by (simp add: e recorded_status_def)
  have c: "finish_json (snd (CellmapsPipeline_new_run (\<lambda>p. p) 0 ''0.1.0'' (Some ''/out'') ?r0 None
      empty_world)) = [(''/out'', 0, PyInt 0)]"
    using t0[THEN conjunct2, THEN conjunct2, THEN conjunct1] f0
    by (simp add: e recorded_status_def)
  have d: "CellmapsPipeline_new_run (\<lambda>p. p) 0 ''0.1.0'' (Some ''/out'') ?r0 None blocked_world =
     (Inl FileExistsError, blocked_world)"
    using tb nu by blast
  from u a b c nu d show ?thesis by blast
qed

text \<open>
  The claim C2 as stated fails in two ways. Every worker returns 99: the image download
  is the only stage run, the runner raises, and the marker records 99, the stage's own
  exit code. And with a regular file in the place of the output root, \<^verbatim>\<open>run()\<close> ends in
  \<^verbatim>\<open>FileExistsError\<close> and writes no finish marker.
\<close>

theorem stage_code_99_recorded:
  "calls (snd (CellmapsPipeline_new_run (\<lambda>p. p) 0 ''0.1.0'' (Some ''/out'')
          (ProgrammaticPipelineRunner_run (all_return 99) (example_programmatic [1])) None
          empty_world)) =
     [(CellmapsImageDownloader ''/out/1.image_download'' MultiProcessImageDownloader, 99)] \<and>
   finish_json (snd (CellmapsPipeline_new_run (\<lambda>p. p) 0 ''0.1.0'' (Some ''/out'')
          (ProgrammaticPipelineRunner_run (all_return 99) (example_programmatic [1])) None
          empty_world)) =
     [(''/out'', 0, PyInt 99)] \<and>
   CellmapsPipeline_new_run (\<lambda>p. p) 0 ''0.1.0'' (Some ''/out'')
     (ProgrammaticPipelineRunner_run (all_return 99) (example_programmatic [1])) None
     blocked_world =
     (Inl FileExistsError, blocked_world) \<and>
   finish_json blocked_world = []"
  by (simp add: CellmapsPipeline_new_run_def CellmapsPipeline_init_def CellmapsPipeline_run_def
      makedirs_def write_task_start_json_def write_task_finish_json_def run_defs
      all_return_def example_programmatic_def empty_world_def blocked_world_def)

text \<open>
  Claim C6, as the code has it. Without an output root the constructor already raises
  \<^verbatim>\<open>CellmapsPipelineError('outdir is None')\<close>, so \<^verbatim>\<open>run()\<close> is not reached; the guard
  of \<^verbatim>\<open>run()\<close> itself, on an object whose \<^verbatim>\<open>_outdir\<close> is \<^verbatim>\<open>None\<close>, raises
  \<^verbatim>\<open>CellmapsPipelineError('outdir must be set')\<close>. Both leave the world unchanged.
\<close>

theorem outdir_unset_no_effects:
  "CellmapsPipeline_init abspath now None rn idd = Inl (CellmapsPipelineError ''outdir is None'') \<and>
   CellmapsPipeline_new_run abspath now version None rn idd w =
     (Inl (CellmapsPipelineError ''outdir is None''), w) \<and>
   CellmapsPipeline_run version (p\<lparr>pipeline_outdir := None\<rparr>) w =
     (Inl (CellmapsPipelineError ''outdir must be set''), w)"
  by (simp add: CellmapsPipeline_init_def CellmapsPipeline_new_run_def CellmapsPipeline_run_def)

text \<open>
  The claim C6 as stated fails: constructing the pipeline without an output root and
  running it ends with the constructor's message, not with that of \<^verbatim>\<open>run()\<close>.
\<close>

theorem outdir_none_fails_in_constructor:
  "CellmapsPipeline_new_run (\<lambda>p. p) 0 ''0.1.0'' None
     (ProgrammaticPipelineRunner_run (all_return 0) (example_programmatic [1])) None empty_world =
     (Inl (CellmapsPipelineError ''outdir is None''), empty_world) \<and>
   CellmapsPipelineError ''outdir is None'' \<noteq> CellmapsPipelineError ''outdir must be set''"
  by (simp add: CellmapsPipeline_init_def CellmapsPipeline_new_run_def)

section \<open>The driver script for two folds\<close>

lemma example_slurm_init:
  "SLURMPipelineRunner_init (\<lambda>p. p) example_constants (Some ''/out'') (Some ''table.tsv'') None
       None None (Some ''prov.json'') (Some fs) None None = Inr (example_slurm fs)"
  by (simp add: SLURMPipelineRunner_init_def PipelineRunner_init_def
      get_image_coembed_tuples_def example_constants_def example_slurm_def
      os_path_join_def starts_with_sep_def)

lemma example_slurm_inputs: "inputs_given (example_slurm fs)"
  by (simp add: inputs_given_def example_slurm_def)

lemma script_paths_distinct:
  "distinct (map (os_path_join d) (''slurm_cellmaps_job.sh'' # job_script_names))"
proof -
  have "inj_on (os_path_join d) (set (''slurm_cellmaps_job.sh'' # job_script_names))"
  proof (rule inj_onI)
    fix x y
    assume x: "x \<in> set (''slurm_cellmaps_job.sh'' # job_script_names)"
      and y: "y \<in> set (''slurm_cellmaps_job.sh'' # job_script_names)"
      and e: "os_path_join d x = os_path_join d y"
    have "\<not> starts_with_sep x" using x
      by (auto simp: job_script_names_def starts_with_sep_def)
    moreover have "\<not> starts_with_sep y" using y
      by (auto simp: job_script_names_def starts_with_sep_def)
    ultimately show "x = y" using e by (rule os_path_join_inj)
  qed
  moreover have "distinct (''slurm_cellmaps_job.sh'' # job_script_names)"
    by (simp add: job_script_names_def)
  ultimately show ?thesis by (simp add: distinct_map)
qed

text \<open>
  Claim C7, as the code has it. For the folds 1 and 2, with the input table and the
  provenance given and the output root existing, \<^verbatim>\<open>SLURMPipelineRunner.run\<close> returns
  \<^verbatim>\<open>None\<close>, opens the driver script and eight job scripts (nine distinct paths), invokes
  no worker and creates no directory. The driver script submits the two downloads, the
  PPI embedding after the PPI download, each fold's image embedding after the image
  download, and last the hierarchy, whose dependency clause begins with
  \<^verbatim>\<open>$ppi_embed_job\<close>. The text of the two co-embedding submissions (\<open>c1\<close>, \<open>c2\<close>) and of the
  references to them in the hierarchy's dependency clause (\<open>refs\<close>) is left open: lines
  317 to 319 build it from \<open>coembed_job_name\<close> and do not close the command substitution.
\<close>

theorem slurm_run_fold_1_2:
  assumes t: "s_image_coembed_tuples r = [t1, t2]" "fst t1 = 1" "fst t2 = 2"
    and i: "inputs_given r"
    and o: "isdir (outdir r) w"
  shows "fst (SLURMPipelineRunner_run r w) = Inr PyNone \<and>
         opened (snd (SLURMPipelineRunner_run r w)) =
           opened w @ map (os_path_join (outdir r)) (''slurm_cellmaps_job.sh'' # job_script_names) \<and>
         distinct (map (os_path_join (outdir r)) (''slurm_cellmaps_job.sh'' # job_script_names)) \<and>
         length job_script_names = 8 \<and>
         calls (snd (SLURMPipelineRunner_run r w)) = calls w \<and>
         dirs (snd (SLURMPipelineRunner_run r w)) = dirs w \<and>
         (\<exists>c1 c2 refs.
            files (snd (SLURMPipelineRunner_run r w))
              (os_path_join (outdir r) ''slurm_cellmaps_job.sh'') =
            Some (''#! /bin/bash\<newline>\<newline>'' @
              ''# image download no dependencies\<newline>'' @
              ''image_download_job=$(sbatch imagedownloadjob.sh)\<newline>\<newline>'' @
              ''# ppi download no dependencies\<newline>'' @
              ''ppi_download_job=$(sbatch ppidownloadjob.sh)\<newline>\<newline>'' @
              ''# ppi embed\<newline>'' @
              ''ppi_embed_job=$(sbatch --dependency=afterok:$ppi_download_job ppiembedjob.sh)\<newline>\<newline>'' @
              ''# image embed\<newline>'' @
              ''image_embed_job1=$(sbatch --dependency=afterok:$image_download_job imageembedjob1.sh)\<newline>\<newline>'' @
              ''# fold1 co-embedding\<newline>'' @
              c1 @
              ''# image embed\<newline>'' @
              ''image_embed_job2=$(sbatch --dependency=afterok:$image_download_job imageembedjob2.sh)\<newline>\<newline>'' @
              ''# fold2 co-embedding\<newline>'' @
              c2 @
              ''# hierarchy\<newline>'' @
              ''hierarchy_job=$(sbatch --dependency=afterok:$ppi_embed_job:'' @ refs @
              '' hierarchyjob.sh)\<newline>\<newline>''))"
proof -
  note d = script_paths_distinct[of "outdir r"]
  have ne: "os_path_join (outdir r) ''slurm_cellmaps_job.sh'' \<noteq> os_path_join (outdir r) n"
    if "n \<in> set job_script_names" for n
    using d that by auto
  have f: "files (snd (SLURMPipelineRunner_run r w))
             (os_path_join (outdir r) ''slurm_cellmaps_job.sh'') =
      Some (''#! /bin/bash\<newline>\<newline>'' @
        ''# image download no dependencies\<newline>'' @
        ''image_download_job=$(sbatch imagedownloadjob.sh)\<newline>\<newline>'' @
        ''# ppi download no dependencies\<newline>'' @
        ''ppi_download_job=$(sbatch ppidownloadjob.sh)\<newline>\<newline>'' @
        ''# ppi embed\<newline>'' @
        ''ppi_embed_job=$(sbatch --dependency=afterok:$ppi_download_job ppiembedjob.sh)\<newline>\<newline>'' @
        ''# image embed\<newline>'' @
        ''image_embed_job1=$(sbatch --dependency=afterok:$image_download_job imageembedjob1.sh)\<newline>\<newline>'' @
        ''# fold1 co-embedding\<newline>'' @
        (coembed_job_name t1 @ ''=$(sbatch --dependency=afterok:$image_embed_job1 coembeddingjob1.sh'') @
        ''# image embed\<newline>'' @
        ''image_embed_job2=$(sbatch --dependency=afterok:$image_download_job imageembedjob2.sh)\<newline>\<newline>'' @
        ''# fold2 co-embedding\<newline>'' @
        (coembed_job_name t2 @ ''=$(sbatch --dependency=afterok:$image_embed_job2 coembeddingjob2.sh'') @
        ''# hierarchy\<newline>'' @
        ''hierarchy_job=$(sbatch --dependency=afterok:$ppi_embed_job:'' @
        (''$'' @ coembed_job_name t1 @ '':$'' @ coembed_job_name t2) @
        '' hierarchyjob.sh)\<newline>\<newline>'')"
    unfolding slurm_run_12[OF t i]
    using d ne by (simp add: put_file_sel job_script_names_def)
  have e: "\<exists>c1 c2 refs.
            files (snd (SLURMPipelineRunner_run r w))
              (os_path_join (outdir r) ''slurm_cellmaps_job.sh'') =
            Some (''#! /bin/bash\<newline>\<newline>'' @
              ''# image download no dependencies\<newline>'' @
              ''image_download_job=$(sbatch imagedownloadjob.sh)\<newline>\<newline>'' @
              ''# ppi download no dependencies\<newline>'' @
              ''ppi_download_job=$(sbatch ppidownloadjob.sh)\<newline>\<newline>'' @
              ''# ppi embed\<newline>'' @
              ''ppi_embed_job=$(sbatch --dependency=afterok:$ppi_download_job ppiembedjob.sh)\<newline>\<newline>'' @
              ''# image embed\<newline>'' @
              ''image_embed_job1=$(sbatch --dependency=afterok:$image_download_job imageembedjob1.sh)\<newline>\<newline>'' @
              ''# fold1 co-embedding\<newline>'' @
              c1 @
              ''# image embed\<newline>'' @
              ''image_embed_job2=$(sbatch --dependency=afterok:$image_download_job imageembedjob2.sh)\<newline>\<newline>'' @
              ''# fold2 co-embedding\<newline>'' @
              c2 @
              ''# hierarchy\<newline>'' @
              ''hierarchy_job=$(sbatch --dependency=afterok:$ppi_embed_job:'' @ refs @
              '' hierarchyjob.sh)\<newline>\<newline>'')"
    using f by blast
  have rest: "fst (SLURMPipelineRunner_run r w) = Inr PyNone \<and>
         opened (snd (SLURMPipelineRunner_run r w)) =
           opened w @ map (os_path_join (outdir r)) (''slurm_cellmaps_job.sh'' # job_script_names) \<and>
         length job_script_names = 8 \<and>
         calls (snd (SLURMPipelineRunner_run r w)) = calls w \<and>
         dirs (snd (SLURMPipelineRunner_run r w)) = dirs w"
    unfolding slurm_run_12[OF t i]
    by (simp add: put_file_sel job_script_names_def)
  from rest d e show ?thesis by (simp only: simp_thms)
qed

text \<open>
  At the example runner the names built for the two co-embedding jobs are the printed
  tuples.
\<close>

lemma coembed_job_name_1:
  "coembed_job_name (1, ''/out/2.image_embedding_fold1'', ''/out/3.coembedding_fold1'') =
     ''f(1, '/out/2.image_embedding_fold1', '/out/3.coembedding_fold1')_coembed_job''"
  by (simp add: coembed_job_name_def str_tuple_def repr_str_def repr_char_def str_int_1 Let_def)

lemma coembed_job_name_2:
  "coembed_job_name (2, ''/out/2.image_embedding_fold2'', ''/out/3.coembedding_fold2'') =
     ''f(2, '/out/2.image_embedding_fold2', '/out/3.coembedding_fold2')_coembed_job''"
  by (simp add: coembed_job_name_def str_tuple_def repr_str_def repr_char_def str_int_2 Let_def)

lemma example_slurm_12:
  "s_image_coembed_tuples (example_slurm [1, 2]) =
     [(1, ''/out/2.image_embedding_fold1'', ''/out/3.coembedding_fold1''),
      (2, ''/out/2.image_embedding_fold2'', ''/out/3.coembedding_fold2'')]"
  by (simp add: example_slurm_def str_int_1 str_int_2)

lemma out_world_sel:
  "isdir ''/out'' out_world" "opened out_world = []" "calls out_world = []"
  "dirs out_world = {''/out''}"
  by (simp_all add: out_world_def empty_world_def isdir_def)

text \<open>
  The claim C7 as stated fails on the number of job scripts: a runner constructed for
  the folds 1 and 2, run where its output root exists, opens the driver script and eight
  job scripts, not six.
\<close>

theorem slurm_writes_eight_job_scripts:
  "SLURMPipelineRunner_init (\<lambda>p. p) example_constants (Some ''/out'') (Some ''table.tsv'') None
       None None (Some ''prov.json'') (Some [1, 2]) None None = Inr (example_slurm [1, 2]) \<and>
   isdir (outdir (example_slurm [1, 2])) out_world \<and>
   fst (SLURMPipelineRunner_run (example_slurm [1, 2]) out_world) = Inr PyNone \<and>
   opened (snd (SLURMPipelineRunner_run (example_slurm [1, 2]) out_world)) =
     [''/out/slurm_cellmaps_job.sh'', ''/out/imagedownloadjob.sh'', ''/out/ppidownloadjob.sh'',
      ''/out/ppiembedjob.sh'', ''/out/imageembedjob1.sh'', ''/out/coembeddingjob1.sh'',
      ''/out/imageembedjob2.sh'', ''/out/coembeddingjob2.sh'', ''/out/hierarchyjob.sh''] \<and>
   length (tl (opened (snd (SLURMPipelineRunner_run (example_slurm [1, 2]) out_world)))) = 8"
  unfolding slurm_run_12[OF example_slurm_12 _ _ example_slurm_inputs, simplified]
  by (simp add: example_slurm_init put_file_sel out_world_sel example_slurm_def os_path_join_def
      starts_with_sep_def)

text \<open>
  The theorem at the runner the constructor returns for the folds 1 and 2, run where
  its output root \<^verbatim>\<open>/out\<close> exists.
\<close>

theorem slurm_run_fold_1_2_witness:
  "SLURMPipelineRunner_init (\<lambda>p. p) example_constants (Some ''/out'') (Some ''table.tsv'') None
       None None (Some ''prov.json'') (Some [1, 2]) None None = Inr (example_slurm [1, 2]) \<and>
   s_image_coembed_tuples (example_slurm [1, 2]) =
     [(1, ''/out/2.image_embedding_fold1'', ''/out/3.coembedding_fold1''),
      (2, ''/out/2.image_embedding_fold2'', ''/out/3.coembedding_fold2'')] \<and>
   inputs_given (example_slurm [1, 2]) \<and>
   isdir (outdir (example_slurm [1, 2])) out_world \<and>
   fst (SLURMPipelineRunner_run (example_slurm [1, 2]) out_world) = Inr PyNone \<and>
   opened (snd (SLURMPipelineRunner_run (example_slurm [1, 2]) out_world)) =
     [''/out/slurm_cellmaps_job.sh'', ''/out/imagedownloadjob.sh'', ''/out/ppidownloadjob.sh'',
      ''/out/ppiembedjob.sh'', ''/out/imageembedjob1.sh'', ''/out/coembeddingjob1.sh'',
      ''/out/imageembedjob2.sh'', ''/out/coembeddingjob2.sh'', ''/out/hierarchyjob.sh''] \<and>
   calls (snd (SLURMPipelineRunner_run (example_slurm [1, 2]) out_world)) = [] \<and>
   dirs (snd (SLURMPipelineRunner_run (example_slurm [1, 2]) out_world)) = {''/out''} \<and>
   (\<exists>c1 c2 refs.
      files (snd (SLURMPipelineRunner_run (example_slurm [1, 2]) out_world))
        ''/out/slurm_cellmaps_job.sh'' =
      Some (''#! /bin/bash\<newline>\<newline>'' @
        ''# image download no dependencies\<newline>'' @
        ''image_download_job=$(sbatch imagedownloadjob.sh)\<newline>\<newline>'' @
        ''# ppi download no dependencies\<newline>'' @
        ''ppi_download_job=$(sbatch ppidownloadjob.sh)\<newline>\<newline>'' @
        ''# ppi embed\<newline>'' @
        ''ppi_embed_job=$(sbatch --dependency=afterok:$ppi_download_job ppiembedjob.sh)\<newline>\<newline>'' @
        ''# image embed\<newline>'' @
        ''image_embed_job1=$(sbatch --dependency=afterok:$image_download_job imageembedjob1.sh)\<newline>\<newline>'' @
        ''# fold1 co-embedding\<newline>'' @
        c1 @
        ''# image embed\<newline>'' @
        ''image_embed_job2=$(sbatch --dependency=afterok:$image_download_job imageembedjob2.sh)\<newline>\<newline>'' @
        ''# fold2 co-embedding\<newline>'' @
        c2 @
        ''# hierarchy\<newline>'' @
        ''hierarchy_job=$(sbatch --dependency=afterok:$ppi_embed_job:'' @ refs @
        '' hierarchyjob.sh)\<newline>\<newline>''))"
proof -
  have o: "outdir (example_slurm [1, 2]) = ''/out''" by (simp add: example_slurm_def)
  have h: "isdir (outdir (example_slurm [1, 2])) out_world"
    unfolding o by (rule out_world_sel)
  note th = slurm_run_fold_1_2[OF example_slurm_12 fst_conv fst_conv example_slurm_inputs h]
  have n: "map (os_path_join ''/out'') (''slurm_cellmaps_job.sh'' # job_script_names) =
     [''/out/slurm_cellmaps_job.sh'', ''/out/imagedownloadjob.sh'', ''/out/ppidownloadjob.sh'',
      ''/out/ppiembedjob.sh'', ''/out/imageembedjob1.sh'', ''/out/coembeddingjob1.sh'',
      ''/out/imageembedjob2.sh'', ''/out/coembeddingjob2.sh'', ''/out/hierarchyjob.sh'']"
    by (simp add: job_script_names_def os_path_join_def starts_with_sep_def)
  have j: "os_path_join ''/out'' ''slurm_cellmaps_job.sh'' = ''/out/slurm_cellmaps_job.sh''"
    by (simp add: os_path_join_def starts_with_sep_def)
  note c1 = th[THEN conjunct1]
  note c2 = th[THEN conjunct2, THEN conjunct1, unfolded o n out_world_sel append_Nil]
  note c5 = th[THEN conjunct2, THEN conjunct2, THEN conjunct2, THEN conjunct2, THEN conjunct1,
      unfolded out_world_sel]
  note c6 = th[THEN conjunct2, THEN conjunct2, THEN conjunct2, THEN conjunct2, THEN conjunct2,
      THEN conjunct1, unfolded out_world_sel]
  note c7 = th[THEN conjunct2, THEN conjunct2, THEN conjunct2, THEN conjunct2, THEN conjunct2,
      THEN conjunct2, unfolded o j]
  from example_slurm_init[of "[1, 2]"] example_slurm_12 example_slurm_inputs h c1 c2 c5 c6 c7
  show ?thesis by (simp only: simp_thms)
qed

text \<open>
  Claim C8 at a concrete runner: the image-download script joins the output directory
  and \<^verbatim>\<open>--provenance\<close> without a separator, while the PPI-download script has the space.
\<close>

theorem image_download_command_line:
  "files (snd (generate_download_images_command (example_slurm [1]) out_world))
     ''/out/imagedownloadjob.sh'' =
     Some (''#!/bin/bash\<newline>\<newline>'' @
           ''#SBATCH --job-name=imagedownload\<newline>'' @
           ''#SBATCH --chdir=/out\<newline>'' @
           ''#SBATCH --output=%x.%j.out#SBATCH --ntasks=1\<newline>'' @
           ''#SBATCH --cpus-per-task=4\<newline>'' @
           ''#SBATCH --mem=32G\<newline>'' @
           ''#SBATCH --time=4:00:00\<newline>\<newline>'' @
           ''echo $SLURM_JOB_ID\<newline>'' @
           ''echo $HOSTNAME\<newline>'' @
           ''cellmaps_imagedownloadercmd.py /out/1.image_download--provenance prov.json --cm4ai_table table.tsv\<newline>'' @
           ''exit $?\<newline>'') \<and>
   files (snd (generate_download_ppi_command (example_slurm [1]) out_world))
     ''/out/ppidownloadjob.sh'' =
     Some (''#!/bin/bash\<newline>\<newline>'' @
           ''#SBATCH --job-name=ppidownload\<newline>'' @
           ''#SBATCH --chdir=/out\<newline>'' @
           ''#SBATCH --output=%x.%j.out#SBATCH --ntasks=1\<newline>'' @
           ''#SBATCH --cpus-per-task=4\<newline>'' @
           ''#SBATCH --mem=32G\<newline>'' @
           ''#SBATCH --time=4:00:00\<newline>\<newline>'' @
           ''echo $SLURM_JOB_ID\<newline>'' @
           ''echo $HOSTNAME\<newline>'' @
           ''cellmaps_ppidownloadercmd.py /out/1.ppi_download --provenance prov.json --cm4ai_table table.tsv\<newline>'' @
           ''exit $?\<newline>'')"
  unfolding generate_download_images_command_ok[OF example_slurm_inputs]
    generate_download_ppi_command_ok[OF example_slurm_inputs]
  by (simp add: put_file_sel directives_text_def input_arg_text_def example_slurm_def
      os_path_join_def starts_with_sep_def)

section \<open>Fold indexing in the per-fold generators\<close>

lemma SLURM_init_fields:
  assumes "SLURMPipelineRunner_init abspath C od ci sm un fk pv (Some fs) sp sa = Inr r"
  shows "s_image_coembed_tuples r =
           map (\<lambda>f. (f, os_path_join (outdir r) (IMAGE_EMBEDDING_STEP_DIR C @ str_int f),
                        os_path_join (outdir r) (COEMBEDDING_STEP_DIR C @ str_int f))) fs"
proof (cases od)
  case None
  then show ?thesis using assms
    by (simp add: SLURMPipelineRunner_init_def PipelineRunner_init_def)
next
  case (Some d)
  then show ?thesis using assms
    by (auto simp: SLURMPipelineRunner_init_def PipelineRunner_init_def
        get_image_coembed_tuples_def)
qed

lemma py_index_upto:
  assumes "1 \<le> k" "k \<le> n"
  shows "py_index (map F [1..n]) (k - 1) = Inr (F k)"
proof -
  have "nat (k - 1) < length [1..n]" using assms by simp
  moreover have "[1..n] ! nat (k - 1) = k"
    using assms nth_upto[of 1 "nat (k - 1)" n] by simp
  ultimately show ?thesis using assms by (simp add: py_index_def)
qed

lemma py_index_beyond:
  assumes "int (length xs) < k"
  shows "py_index xs (k - 1) = Inl IndexError"
  using assms by (simp add: py_index_def)

lemma py_index_error: "py_index xs i = Inl e \<Longrightarrow> e = IndexError"
  by (simp add: py_index_def Let_def split: if_splits)

lemma slurm_fold_loop_index_error:
  assumes "\<exists>t\<in>set ts. int (length (s_image_coembed_tuples r)) < fst t"
  shows "fst (slurm_fold_loop r f ts names w) = Inl IndexError"
  using assms
proof (induction ts arbitrary: names w)
  case Nil
  then show ?case by simp
next
  case (Cons t ts)
  show ?case
  proof (cases "py_index (s_image_coembed_tuples r) (fst t - 1)")
    case (Inl e)
    then have "e = IndexError" by (rule py_index_error)
    then show ?thesis using Inl by (simp add: generate_embed_image_command_err)
  next
    case (Inr t')
    have "\<not> int (length (s_image_coembed_tuples r)) < fst t"
      using Inr py_index_beyond[of "s_image_coembed_tuples r" "fst t"] by auto
    with Cons.prems have "\<exists>t\<in>set ts. int (length (s_image_coembed_tuples r)) < fst t" by auto
    note ih = Cons.IH[OF this]
    show ?thesis
      by (simp add: generate_embed_image_command_ok[OF Inr] generate_coembed_command_ok[OF Inr]
          Let_def ih)
  qed
qed

lemma slurm_run_index_error:
  assumes b: "\<exists>t\<in>set (s_image_coembed_tuples r). int (length (s_image_coembed_tuples r)) < fst t"
    and i: "inputs_given r"
  shows "fst (SLURMPipelineRunner_run r w) = Inl IndexError"
proof -
  have l: "\<And>names w. fst (slurm_fold_loop r (os_path_join (outdir r) ''slurm_cellmaps_job.sh'')
            (s_image_coembed_tuples r) names w) = Inl IndexError"
    by (rule slurm_fold_loop_index_error[OF b])
  have c: "fst (case x of (Inl e, w8) \<Rightarrow> (Inl e, w8) | (Inr ns, w8) \<Rightarrow> g ns w8) = Inl IndexError"
    if "fst x = Inl IndexError" for x :: "(error + string list) \<times> world"
      and g :: "string list \<Rightarrow> world \<Rightarrow> (error + pyval) \<times> world"
    using that by (cases x) auto
  show ?thesis
    unfolding SLURMPipelineRunner_run_def Let_def
      generate_download_images_command_ok[OF i] generate_download_ppi_command_ok[OF i]
      generate_embed_ppi_command_ok prod.case sum.case
    by (rule c) (rule l)
qed

text \<open>
  Claim C10. The per-fold generators index the tuple list at \<^verbatim>\<open>fold - 1\<close>. For a runner
  constructed with the fold list \<open>[1..n]\<close> and a fold \<open>k\<close> of that list, both generated
  scripts name fold \<open>k\<close>'s own image-embedding and co-embedding directories. For a runner
  whose fold list holds a fold \<open>k\<close> greater than its length, both generators raise
  \<^verbatim>\<open>IndexError\<close> for \<open>k\<close>: they return no script name, and the file they had opened
  holds the directives only, no command line; with the inputs of the download scripts
  given, \<^verbatim>\<open>run()\<close> as a whole ends in that \<^verbatim>\<open>IndexError\<close>.
\<close>

theorem fold_index_selects_dirs:
  assumes "SLURMPipelineRunner_init abspath C od ci sm un fk pv (Some fs) sp sa = Inr r"
  shows
   "(fs = [1..n] \<and> 1 \<le> k \<and> k \<le> n \<longrightarrow>
       generate_embed_image_command r k w =
         (Inr (''imageembedjob'' @ str_int k @ ''.sh''),
          put_file (os_path_join (outdir r) (''imageembedjob'' @ str_int k @ ''.sh''))
            (directives_text r (''imageembed'' @ str_int k) @
             ''cellmaps_image_embeddingcmd.py '' @
             os_path_join (outdir r) (IMAGE_EMBEDDING_STEP_DIR C @ str_int k) @
             '' --fold '' @ str_int k @ '' --inputdir '' @ s_image_dir r @ '' '' @
             fake_flag r ''--fake_embedder'' @ '' -vvvv\<newline>'' @ ''exit $?\<newline>'') w) \<and>
       generate_coembed_command r k w =
         (Inr (''coembeddingjob'' @ str_int k @ ''.sh''),
          put_file (os_path_join (outdir r) (''coembeddingjob'' @ str_int k @ ''.sh''))
            (directives_text r (''coembedding'' @ str_int k) @
             ''cellmaps_coembeddingcmd.py '' @
             os_path_join (outdir r) (COEMBEDDING_STEP_DIR C @ str_int k) @
             '' --ppi_embeddingdir '' @ s_ppi_embed_dir r @ '' --image_embeddingdir '' @
             os_path_join (outdir r) (IMAGE_EMBEDDING_STEP_DIR C @ str_int k) @ '' '' @
             fake_flag r ''--fake_embedding'' @ '' -vvvv\<newline>'' @ ''exit $?\<newline>'') w)) \<and>
    (k \<in> set fs \<and> int (length fs) < k \<longrightarrow>
       generate_embed_image_command r k w =
         (Inl IndexError,
          put_file (os_path_join (outdir r) (''imageembedjob'' @ str_int k @ ''.sh''))
            (directives_text r (''imageembed'' @ str_int k)) w) \<and>
       generate_coembed_command r k w =
         (Inl IndexError,
          put_file (os_path_join (outdir r) (''coembeddingjob'' @ str_int k @ ''.sh''))
            (directives_text r (''coembedding'' @ str_int k)) w) \<and>
       (inputs_given r \<longrightarrow> fst (SLURMPipelineRunner_run r w) = Inl IndexError))"
proof -
  let ?F = "\<lambda>f. (f, os_path_join (outdir r) (IMAGE_EMBEDDING_STEP_DIR C @ str_int f),
                   os_path_join (outdir r) (COEMBEDDING_STEP_DIR C @ str_int f))"
  note ts = SLURM_init_fields[OF assms]
  have a: "py_index (s_image_coembed_tuples r) (k - 1) = Inr (?F k)"
    if "fs = [1..n]" "1 \<le> k" "k \<le> n"
    using py_index_upto[OF that(2,3), of ?F] that(1) ts by simp
  have b: "py_index (s_image_coembed_tuples r) (k - 1) = Inl IndexError"
    if "int (length fs) < k"
    using py_index_beyond[of "s_image_coembed_tuples r" k] that ts by simp
  have c: "fst (SLURMPipelineRunner_run r w) = Inl IndexError"
    if "k \<in> set fs" "int (length fs) < k" "inputs_given r"
  proof -
    have "?F k \<in> set (s_image_coembed_tuples r)" using that(1) ts by simp
    moreover have "int (length (s_image_coembed_tuples r)) < fst (?F k)"
      using that(2) ts by simp
    ultimately show ?thesis using slurm_run_index_error[OF _ that(3)] by blast
  qed
  show ?thesis
  proof (intro conjI impI)
    assume h: "fs = [1..n] \<and> 1 \<le> k \<and> k \<le> n"
    then have p: "py_index (s_image_coembed_tuples r) (k - 1) = Inr (?F k)" using a by blast
    show "generate_embed_image_command r k w =
         (Inr (''imageembedjob'' @ str_int k @ ''.sh''),
          put_file (os_path_join (outdir r) (''imageembedjob'' @ str_int k @ ''.sh''))
            (directives_text r (''imageembed'' @ str_int k) @
             ''cellmaps_image_embeddingcmd.py '' @
             os_path_join (outdir r) (IMAGE_EMBEDDING_STEP_DIR C @ str_int k) @
             '' --fold '' @ str_int k @ '' --inputdir '' @ s_image_dir r @ '' '' @
             fake_flag r ''--fake_embedder'' @ '' -vvvv\<newline>'' @ ''exit $?\<newline>'') w)"
      by (simp add: generate_embed_image_command_ok[OF p])
    show "generate_coembed_command r k w =
         (Inr (''coembeddingjob'' @ str_int k @ ''.sh''),
          put_file (os_path_join (outdir r) (''coembeddingjob'' @ str_int k @ ''.sh''))
            (directives_text r (''coembedding'' @ str_int k) @
             ''cellmaps_coembeddingcmd.py '' @
             os_path_join (outdir r) (COEMBEDDING_STEP_DIR C @ str_int k) @
             '' --ppi_embeddingdir '' @ s_ppi_embed_dir r @ '' --image_embeddingdir '' @
             os_path_join (outdir r) (IMAGE_EMBEDDING_STEP_DIR C @ str_int k) @ '' '' @
             fake_flag r ''--fake_embedding'' @ '' -vvvv\<newline>'' @ ''exit $?\<newline>'') w)"
      by (simp add: generate_coembed_command_ok[OF p])
  next
    assume h: "k \<in> set fs \<and> int (length fs) < k"
    then have p: "py_index (s_image_coembed_tuples r) (k - 1) = Inl IndexError" using b by blast
    show "generate_embed_image_command r k w =
         (Inl IndexError,
          put_file (os_path_join (outdir r) (''imageembedjob'' @ str_int k @ ''.sh''))
            (directives_text r (''imageembed'' @ str_int k)) w)"
      by (rule generate_embed_image_command_err[OF p])
    show "generate_coembed_command r k w =
         (Inl IndexError,
          put_file (os_path_join (outdir r) (''coembeddingjob'' @ str_int k @ ''.sh''))
            (directives_text r (''coembedding'' @ str_int k)) w)"
      by (rule generate_coembed_command_err[OF p])
    assume "inputs_given r"
    with h c show "fst (SLURMPipelineRunner_run r w) = Inl IndexError" by blast
  qed
qed

text \<open>
  The theorem at the fold list \<open>[2]\<close>, whose only fold exceeds its length, and at the
  fold list \<open>[1..2]\<close> with fold 2.
\<close>

theorem fold_index_selects_dirs_witness:
  "(2 :: int) \<in> set [2] \<and> int (length [2 :: int]) < 2 \<and> inputs_given (example_slurm [2]) \<and>
   fst (generate_embed_image_command (example_slurm [2]) 2 out_world) = Inl IndexError \<and>
   fst (generate_coembed_command (example_slurm [2]) 2 out_world) = Inl IndexError \<and>
   fst (SLURMPipelineRunner_run (example_slurm [2]) out_world) = Inl IndexError \<and>
   (1 :: int) \<le> 2 \<and> (2 :: int) \<le> 2 \<and>
   fst (generate_embed_image_command (example_slurm [1..2]) 2 out_world) =
     Inr ''imageembedjob2.sh'' \<and>
   files (snd (generate_embed_image_command (example_slurm [1..2]) 2 out_world))
     ''/out/imageembedjob2.sh'' =
     Some (directives_text (example_slurm [1..2]) ''imageembed2'' @
           ''cellmaps_image_embeddingcmd.py /out/2.image_embedding_fold2 --fold 2 --inputdir /out/1.image_download  -vvvv\<newline>exit $?\<newline>'') \<and>
   files (snd (generate_coembed_command (example_slurm [1..2]) 2 out_world))
     ''/out/coembeddingjob2.sh'' =
     Some (directives_text (example_slurm [1..2]) ''coembedding2'' @
           ''cellmaps_coembeddingcmd.py /out/3.coembedding_fold2 --ppi_embeddingdir /out/2.ppi_embedding --image_embeddingdir /out/2.image_embedding_fold2  -vvvv\<newline>exit $?\<newline>'')"
proof -
  note bad = fold_index_selects_dirs[OF example_slurm_init[of "[2]"], of 0 2 out_world,
      THEN conjunct2, rule_format]
  note good = fold_index_selects_dirs[OF example_slurm_init[of "[1..2]"], of 2 2 out_world,
      THEN conjunct1, rule_format]
  have i: "inputs_given (example_slurm [2])" by (rule example_slurm_inputs)
  have h1: "(2 :: int) \<in> set [2] \<and> int (length [2 :: int]) < 2" by simp
  have h2: "[1..2] = [1..2] \<and> (1 :: int) \<le> 2 \<and> (2 :: int) \<le> 2" by simp
  have f: "outdir (example_slurm fs) = ''/out''"
    "s_image_dir (example_slurm fs) = ''/out/1.image_download''"
    "s_ppi_embed_dir (example_slurm fs) = ''/out/2.ppi_embedding''"
    "fake_flag (example_slurm fs) x = []" for fs x
    by (simp_all add: example_slurm_def fake_flag_def)
  have c: "IMAGE_EMBEDDING_STEP_DIR example_constants = ''2.image_embedding_fold''"
    "COEMBEDDING_STEP_DIR example_constants = ''3.coembedding_fold''"
    by (simp_all add: example_constants_def)
  from bad[OF h1] i good[OF h2] show ?thesis
    unfolding f c str_int_2
    by (simp add: put_file_sel os_path_join_def starts_with_sep_def)
qed

section \<open>The image-embedding stage\<close>

text \<open>
  The image-embedding stage is the exception to the naming of the failed stage: when
  its worker returns a nonzero code, building the log message raises \<^verbatim>\<open>TypeError\<close>
  (the fold is an integer), and that is what the run ends with.
\<close>

lemma image_embed_failure:
  assumes "calls (snd (ProgrammaticPipelineRunner_run ext r w)) = calls w @ cs"
    and "(k, c) \<in> set cs" and "c \<noteq> 0" and "is_image_embedder k"
  shows "fst (ProgrammaticPipelineRunner_run ext r w) = Inl TypeError"
proof -
  obtain res w' where run: "ProgrammaticPipelineRunner_run ext r w = (res, w')"
    by (cases "ProgrammaticPipelineRunner_run ext r w")
  from assms(1) run have cs: "calls w' = calls w @ cs" by simp
  from trace_ok_run[OF run] show ?thesis
  proof
    assume "res = Inr (PyInt 0) \<and> trace_ok None w w'"
    then have "zero_codes cs" using cs by (auto simp: trace_ok_def)
    then show ?thesis using assms(2,3) by (auto simp: zero_codes_def list_all_iff)
  next
    assume "\<exists>e. res = Inl e \<and> trace_ok (Some e) w w'"
    then obtain e pre k1 c1 where e: "res = Inl e" "cs = pre @ [(k1, c1)]" "zero_codes pre"
      "c1 \<noteq> 0" "e = failure_of k1"
      using cs by (auto simp: trace_ok_def)
    from assms(2) obtain xs ys where "cs = xs @ (k, c) # ys" by (auto simp: in_set_conv_decomp)
    with zero_codes_snoc_nonzero[OF e(3,4), of k1 xs k c ys] e(2) assms(3) have "k = k1" by simp
    then show ?thesis using e(1,5) assms(4) run by (simp add: failure_of_def)
  qed
qed

lemma image_embed_failure_example:
  "ProgrammaticPipelineRunner_run (image_embed_fails 3) (example_programmatic [1]) empty_world =
     (Inl TypeError,
      empty_world\<lparr>calls :=
        [(CellmapsImageDownloader ''/out/1.image_download'' MultiProcessImageDownloader, 0),
         (CellmapsPPIDownloader ''/out/1.ppi_download'', 0),
         (CellMapsPPIEmbedder ''/out/2.ppi_embedding'' ''/out/1.ppi_download'', 0),
         (CellmapsImageEmbedder ''/out/2.image_embedding_fold1'' ''/out/1.image_download''
            (DensenetEmbeddingGenerator ''/out/1.image_download'' ''/out/2.image_embedding_fold1'' 1),
          3)]\<rparr>)"
  by (simp add: run_defs image_embed_fails_def is_image_embedder_def example_programmatic_def
      empty_world_def str_int_1)

end
